theory Spec2Isabelle
  imports Main "HOL-Library.AList"
begin

section \<open>JavaScript values and JSON\<close>

text \<open>
  The SDK is TypeScript, whose types are erased when the program runs: what
  \<^verbatim>\<open>StorageManager.get<UserSession>\<close> returns is whatever \<^verbatim>\<open>JSON.parse\<close> produced.
  Values are therefore modelled as they are at run time. Numbers are the integers
  (millisecond instants, durations, counters: exact in a double below \<open>2^53\<close>);
  arrays and functions do not occur in the modelled paths. \<open>IsoStr t\<close> is the
  \<^emph>\<open>string\<close> that \<^verbatim>\<open>new Date(t).toISOString()\<close> yields: a string like any other, kept
  apart only so that its content need not be computed from the calendar.
\<close>

datatype jsval =
    Undefined
  | Null
  | Bool bool
  | Num int
  | Str string
  | IsoStr int
  | Date int
  | Obj "(string \<times> jsval) list"

text \<open>A JSON document: what \<^verbatim>\<open>JSON.stringify\<close> writes and the storage backend holds.\<close>

datatype json =
    JNull
  | JBool bool
  | JNum int
  | JStr string
  | JIso int
  | JObj "(string \<times> json) list"

text \<open>Truthiness, as \<^verbatim>\<open>if (x)\<close>, \<^verbatim>\<open>!x\<close>, \<^verbatim>\<open>x || y\<close> and \<^verbatim>\<open>x && y\<close> test it.\<close>

fun truthy :: "jsval \<Rightarrow> bool" where
  "truthy Undefined = False"
| "truthy Null = False"
| "truthy (Bool b) = b"
| "truthy (Num n) = (n \<noteq> 0)"
| "truthy (Str s) = (s \<noteq> [])"
| "truthy (IsoStr t) = True"
| "truthy (Date t) = True"
| "truthy (Obj fs) = True"

definition js_or :: "jsval \<Rightarrow> jsval \<Rightarrow> jsval" where
  "js_or a b = (if truthy a then a else b)"

text \<open>
  Property read \<^verbatim>\<open>v.k\<close> on a value that is neither null nor undefined: a named
  field of an object, and undefined on a primitive (the names read by the SDK are
  never \<^verbatim>\<open>length\<close> or an index).
\<close>

definition get_field :: "jsval \<Rightarrow> string \<Rightarrow> jsval" where
  "get_field v k =
     (case v of
        Obj fs \<Rightarrow> (case map_of fs k of Some x \<Rightarrow> x | None \<Rightarrow> Undefined)
      | _ \<Rightarrow> Undefined)"

text \<open>Optional chaining \<^verbatim>\<open>v?.k\<close>.\<close>

definition opt_field :: "jsval \<Rightarrow> string \<Rightarrow> jsval" where
  "opt_field v k = (if v = Null \<or> v = Undefined then Undefined else get_field v k)"

text \<open>Decimal rendering of a number, for index keys and for the length of JSON text.\<close>

definition digit_char :: "nat \<Rightarrow> char" where
  "digit_char d = ''0123456789'' ! d"

fun show_nat :: "nat \<Rightarrow> string" where
  "show_nat n =
     (if n < 10 then [digit_char n]
      else show_nat (n div 10) @ [digit_char (n mod 10)])"

declare show_nat.simps [simp del]

definition show_int :: "int \<Rightarrow> string" where
  "show_int i = (if i < 0 then CHR ''-'' # show_nat (nat (- i)) else show_nat (nat i))"

text \<open>
  Object spread \<^verbatim>\<open>{...v}\<close>: the own enumerable properties of \<open>v\<close>. A string spreads
  into its indexed characters, every other primitive into nothing.
\<close>

fun index_chars :: "nat \<Rightarrow> string \<Rightarrow> (string \<times> jsval) list" where
  "index_chars i [] = []"
| "index_chars i (c # cs) = (show_nat i, Str [c]) # index_chars (Suc i) cs"

definition spread :: "jsval \<Rightarrow> (string \<times> jsval) list" where
  "spread v = (case v of Obj fs \<Rightarrow> fs | Str s \<Rightarrow> index_chars 0 s | _ \<Rightarrow> [])"

text \<open>
  An object literal \<^verbatim>\<open>{...a, k1: v1, ...b}\<close> is built left to right; a key that is
  already present keeps its position and takes the new value.
\<close>

definition assign :: "(string \<times> jsval) list \<Rightarrow> (string \<times> jsval) list \<Rightarrow> (string \<times> jsval) list" where
  "assign base extra = foldl (\<lambda>acc kv. AList.update (fst kv) (snd kv) acc) base extra"

text \<open>
  \<^verbatim>\<open>JSON.stringify\<close>: \<open>None\<close> is the result \<^verbatim>\<open>undefined\<close>. A property whose value is
  undefined is left out; a \<^verbatim>\<open>Date\<close> is written through \<^verbatim>\<open>toJSON\<close> as its ISO string.
\<close>

function to_json :: "jsval \<Rightarrow> json option" where
  "to_json Undefined = None"
| "to_json Null = Some JNull"
| "to_json (Bool b) = Some (JBool b)"
| "to_json (Num n) = Some (JNum n)"
| "to_json (Str s) = Some (JStr s)"
| "to_json (IsoStr t) = Some (JIso t)"
| "to_json (Date t) = Some (JIso t)"
| "to_json (Obj fs) =
     Some (JObj (concat (map (\<lambda>kv. case to_json (snd kv) of
                                       None \<Rightarrow> []
                                     | Some j \<Rightarrow> [(fst kv, j)]) fs)))"
  by pat_completeness auto
termination
proof (relation "measure size")
  show "wf (measure (size :: jsval \<Rightarrow> nat))" by simp
next
  fix fs :: "(string \<times> jsval) list" and kv
  assume "kv \<in> set fs"
  then have "size (snd kv) < Suc (size_list (size_prod (\<lambda>_. 0) size) fs)"
    by (induction fs) (auto simp: less_Suc_eq_le)
  then show "(snd kv, Obj fs) \<in> measure size" by simp
qed

definition JSON_stringify :: "jsval \<Rightarrow> json option" where
  "JSON_stringify v = to_json v"

text \<open>
  \<^verbatim>\<open>JSON.parse\<close> without a reviver, as the SDK calls it: a JSON string is read back as
  a string, whatever wrote it.
\<close>

function JSON_parse :: "json \<Rightarrow> jsval" where
  "JSON_parse JNull = Null"
| "JSON_parse (JBool b) = Bool b"
| "JSON_parse (JNum n) = Num n"
| "JSON_parse (JStr s) = Str s"
| "JSON_parse (JIso t) = IsoStr t"
| "JSON_parse (JObj fs) = Obj (map (\<lambda>kv. (fst kv, JSON_parse (snd kv))) fs)"
  by pat_completeness auto
termination
proof (relation "measure size")
  show "wf (measure (size :: json \<Rightarrow> nat))" by simp
next
  fix fs :: "(string \<times> json) list" and kv
  assume "kv \<in> set fs"
  then have "size (snd kv) < Suc (size_list (size_prod (\<lambda>_. 0) size) fs)"
    by (induction fs) (auto simp: less_Suc_eq_le)
  then show "(snd kv, JObj fs) \<in> measure size" by simp
qed

text \<open>
  The length of the JSON text (\<^verbatim>\<open>serializedValue.length\<close>), for ASCII content: quotes
  and backslashes are escaped with one more character, the control characters with
  a short escape or \<^verbatim>\<open>\u00XX\<close>; an ISO date has 24 characters between its quotes
  for the years 0 to 9999 and 27 outside.
\<close>

definition escaped_length :: "char \<Rightarrow> nat" where
  "escaped_length c =
     (if c = CHR ''\"'' \<or> c = CHR 0x5C then 2
      else if of_char c < (32::nat) then
        (if of_char c \<in> {8, 9, 10, 12, 13 :: nat} then 2 else 6)
      else 1)"

definition string_text_length :: "string \<Rightarrow> nat" where
  "string_text_length s = 2 + sum_list (map escaped_length s)"

definition iso_text_length :: "int \<Rightarrow> nat" where
  "iso_text_length t =
     (if - 62167219200000 \<le> t \<and> t \<le> 253402300799999 then 26 else 29)"

function text_length :: "json \<Rightarrow> nat" where
  "text_length JNull = 4"
| "text_length (JBool b) = (if b then 4 else 5)"
| "text_length (JNum n) = length (show_int n)"
| "text_length (JStr s) = string_text_length s"
| "text_length (JIso t) = iso_text_length t"
| "text_length (JObj fs) =
     2 + sum_list (map (\<lambda>kv. string_text_length (fst kv) + 1 + text_length (snd kv)) fs)
       + (length fs - 1)"
  by pat_completeness auto
termination
proof (relation "measure size")
  show "wf (measure (size :: json \<Rightarrow> nat))" by simp
next
  fix fs :: "(string \<times> json) list" and kv
  assume "kv \<in> set fs"
  then have "size (snd kv) < Suc (size_list (size_prod (\<lambda>_. 0) size) fs)"
    by (induction fs) (auto simp: less_Suc_eq_le)
  then show "(snd kv, JObj fs) \<in> measure size" by simp
qed

section \<open>Errors\<close>

text \<open>
  Every manager wraps what it catches into a plain \<^verbatim>\<open>AdquimoError\<close> object through its
  own \<^verbatim>\<open>createError(code, error)\<close>; the five copies compute code and message alike.
  Of the error object only code and message are kept (timestamp, stack and the
  identity details do not influence control flow). A caught value is an
  \<^verbatim>\<open>Error\<close> instance, a plain error object produced by another manager, or a string
  passed directly.
\<close>

datatype adquimo_error = AdquimoError (code: string) (message: string)

datatype thrown =
    JsError string
  | Plain adquimo_error
  | Message string

definition createError :: "string \<Rightarrow> thrown \<Rightarrow> adquimo_error" where
  "createError c e =
     AdquimoError c
       (case e of
          JsError m \<Rightarrow> m
        | Plain _ \<Rightarrow> ''[object Object]''
        | Message s \<Rightarrow> s)"

text \<open>
  A checked property read (\<^verbatim>\<open>TypeError\<close> on null and undefined) and the method call
  \<^verbatim>\<open>e.getTime()\<close>, which only a \<^verbatim>\<open>Date\<close> answers; \<open>expr\<close> is the source text of the
  receiver, which the engine quotes in its message.
\<close>

definition read_prop :: "jsval \<Rightarrow> string \<Rightarrow> thrown + jsval" where
  "read_prop v k =
     (if v = Null then Inl (JsError (''Cannot read properties of null (reading '' @ k @ '')''))
      else if v = Undefined then
        Inl (JsError (''Cannot read properties of undefined (reading '' @ k @ '')''))
      else Inr (get_field v k))"

definition getTime :: "string \<Rightarrow> jsval \<Rightarrow> thrown + int" where
  "getTime expr v =
     (case v of
        Date t \<Rightarrow> Inr t
      | Null \<Rightarrow> Inl (JsError ''Cannot read properties of null (reading getTime)'')
      | Undefined \<Rightarrow> Inl (JsError ''Cannot read properties of undefined (reading getTime)'')
      | _ \<Rightarrow> Inl (JsError (expr @ ''.getTime is not a function'')))"

section \<open>StorageManager\<close>

text \<open>
  The backend (\<^verbatim>\<open>localStorage\<close>, \<^verbatim>\<open>sessionStorage\<close> or a \<^verbatim>\<open>Map\<close>) is an association list
  from full keys to JSON documents, in insertion order; a backend that refuses a
  write (quota) is not modelled. Every operation that reads the clock takes the
  instant \<open>now\<close> in milliseconds.
\<close>

record storage_manager =
  keyPrefix :: string
  maxSize :: int
  isLocalStorage :: bool
  entries :: "(string \<times> json) list"

definition getFullKey :: "storage_manager \<Rightarrow> string \<Rightarrow> string" where
  "getFullKey st key = keyPrefix st @ key"

definition storage_item :: "string \<Rightarrow> jsval \<Rightarrow> int \<Rightarrow> int option \<Rightarrow> jsval" where
  "storage_item fullKey v now ttl =
     Obj [(''key'', Str fullKey),
          (''value'', v),
          (''timestamp'', Date now),
          (''ttl'', (case ttl of None \<Rightarrow> Undefined | Some t \<Rightarrow> js_or (Num t) Undefined))]"

definition StorageManager_set ::
  "storage_manager \<Rightarrow> int \<Rightarrow> string \<Rightarrow> jsval \<Rightarrow> int option \<Rightarrow> adquimo_error + storage_manager" where
  "StorageManager_set st now key v ttl =
     (let fullKey = getFullKey st key;
          item = storage_item fullKey v now ttl
      in case JSON_stringify item of
           None \<Rightarrow>
             Inl (createError ''STORAGE_SET_ERROR''
                    (JsError ''Cannot read properties of undefined (reading length)''))
         | Some serializedValue \<Rightarrow>
             if maxSize st \<noteq> 0 \<and> int (text_length serializedValue) > maxSize st
             then Inl (createError ''STORAGE_SET_ERROR''
                         (JsError ''Value exceeds maximum storage size''))
             else Inr (st\<lparr>entries := AList.update fullKey serializedValue (entries st)\<rparr>))"

definition StorageManager_remove :: "storage_manager \<Rightarrow> string \<Rightarrow> storage_manager" where
  "StorageManager_remove st key = st\<lparr>entries := AList.delete (getFullKey st key) (entries st)\<rparr>"

text \<open>
  The comparison \<^verbatim>\<open>elapsed > item.ttl\<close>. \<^verbatim>\<open>set\<close> writes a number or leaves the field
  out; any other truthy value would go through JavaScript's coercion to a number,
  which is not modelled.
\<close>

definition exceeds_ttl :: "int \<Rightarrow> jsval \<Rightarrow> bool" where
  "exceeds_ttl elapsed ttl = (case ttl of Num t \<Rightarrow> elapsed > t | _ \<Rightarrow> False)"

text \<open>
  \<^verbatim>\<open>get\<close> returns the value read (or the error thrown) and the storage, which the
  implicit \<^verbatim>\<open>remove\<close> of an expired item changes. A stored JSON text is never the
  empty string, so \<^verbatim>\<open>!serializedValue\<close> holds exactly when the key is missing.
\<close>

definition StorageManager_get ::
  "storage_manager \<Rightarrow> int \<Rightarrow> string \<Rightarrow> (adquimo_error + jsval) \<times> storage_manager" where
  "StorageManager_get st now key =
     (case map_of (entries st) (getFullKey st key) of
        None \<Rightarrow> (Inr Null, st)
      | Some serializedValue \<Rightarrow>
          (let item = JSON_parse serializedValue in
           case read_prop item ''ttl'' of
             Inl e \<Rightarrow> (Inl (createError ''STORAGE_GET_ERROR'' e), st)
           | Inr ttl \<Rightarrow>
               if truthy ttl then
                 (case getTime ''item.timestamp'' (get_field item ''timestamp'') of
                    Inl e \<Rightarrow> (Inl (createError ''STORAGE_GET_ERROR'' e), st)
                  | Inr t \<Rightarrow>
                      if exceeds_ttl (now - t) ttl
                      then (Inr Null, StorageManager_remove st key)
                      else (Inr (get_field item ''value''), st))
               else (Inr (get_field item ''value''), st)))"

definition StorageManager_clear :: "storage_manager \<Rightarrow> storage_manager" where
  "StorageManager_clear st =
     (if isLocalStorage st
      then st\<lparr>entries := filter (\<lambda>kv. take (length (keyPrefix st)) (fst kv) \<noteq> keyPrefix st)
                                  (entries st)\<rparr>
      else st\<lparr>entries := []\<rparr>)"

definition getKeys :: "storage_manager \<Rightarrow> string list" where
  "getKeys st =
     map (drop (length (keyPrefix st)))
       (filter (\<lambda>k. take (length (keyPrefix st)) k = keyPrefix st) (map fst (entries st)))"

text \<open>
  \<^verbatim>\<open>initialize\<close> runs \<^verbatim>\<open>testStorage\<close>: it writes the raw text \<^verbatim>\<open>test\<close> under the key
  \<^verbatim>\<open>test\<close>, reads it back and removes it, so an item stored under that key is gone.
\<close>

definition StorageManager_initialize :: "storage_manager \<Rightarrow> storage_manager" where
  "StorageManager_initialize st =
     st\<lparr>entries := AList.delete (getFullKey st ''test'') (entries st)\<rparr>"

section \<open>Identity and session stores\<close>

text \<open>
  \<^verbatim>\<open>UserManager\<close> and \<^verbatim>\<open>SessionManager\<close> share one \<^verbatim>\<open>StorageManager\<close>. Their fields are
  gathered in one record, which the coordinator's record extends further below;
  \<open>Null\<close> is the \<^verbatim>\<open>null\<close> the fields start with. An operation returns the error it
  throws, if any, together with the state it leaves behind.

  What an operation takes from its surroundings is passed in \<open>env\<close>: the clock
  (read once per operation), the string each \<^verbatim>\<open>uuidv4()\<close> call site obtains, and the
  device and browser snapshots of \<^verbatim>\<open>getDeviceInfo\<close> and \<^verbatim>\<open>getBrowserInfo\<close>.
\<close>

record env =
  now :: int
  userUuid :: string
  sessionUuid :: string
  eventUuid :: string
  batchUuid :: string
  device :: jsval
  browser :: jsval

record managers =
  storage :: storage_manager
  currentUser :: jsval
  currentSession :: jsval
  sessionStartTime :: jsval

definition USER_ID :: string where "USER_ID = ''adquimo_user_id''"
definition SESSION_ID :: string where "SESSION_ID = ''adquimo_session_id''"
definition USER_PROPERTIES :: string where "USER_PROPERTIES = ''adquimo_user_properties''"
definition SESSION_PROPERTIES :: string where "SESSION_PROPERTIES = ''adquimo_session_properties''"
definition MAX_EVENT_PROPERTIES :: nat where "MAX_EVENT_PROPERTIES = 100"
definition MAX_USER_PROPERTIES :: nat where "MAX_USER_PROPERTIES = 50"
definition MAX_SESSION_PROPERTIES :: nat where "MAX_SESSION_PROPERTIES = 25"
definition VERSION :: string where "VERSION = ''1.0.0''"

text \<open>The pattern \<^verbatim>\<open>/^[a-zA-Z0-9_-]+$/\<close> and the value test shared by all validators.\<close>

definition name_char :: "char \<Rightarrow> bool" where
  "name_char c =
     (let n = (of_char c :: nat)
      in (97 \<le> n \<and> n \<le> 122) \<or> (65 \<le> n \<and> n \<le> 90) \<or> (48 \<le> n \<and> n \<le> 57)
         \<or> c = CHR ''_'' \<or> c = CHR ''-'')"

definition isValidPropertyKey :: "string \<Rightarrow> bool" where
  "isValidPropertyKey key = (key \<noteq> [] \<and> list_all name_char key)"

definition isValidPropertyValue :: "jsval \<Rightarrow> bool" where
  "isValidPropertyValue v =
     (case v of
        Str _ \<Rightarrow> True | IsoStr _ \<Rightarrow> True | Num _ \<Rightarrow> True | Bool _ \<Rightarrow> True | Null \<Rightarrow> True
      | _ \<Rightarrow> False)"

text \<open>\<^verbatim>\<open>s.trim() === ''\<close>: only white space (of ASCII: tab to carriage return, space).\<close>

definition is_blank :: "string \<Rightarrow> bool" where
  "is_blank s = list_all (\<lambda>c. of_char c \<in> {9, 10, 11, 12, 13, 32 :: nat}) s"

text \<open>
  \<^verbatim>\<open>validateUserProperties\<close> and \<^verbatim>\<open>validateSessionProperties\<close> differ in the limit and
  in one word of their messages; the result is the \<^verbatim>\<open>Error\<close> thrown, if any.
\<close>

fun validateEach :: "(string \<times> jsval) list \<Rightarrow> thrown option" where
  "validateEach [] = None"
| "validateEach ((k, v) # rest) =
     (if \<not> isValidPropertyKey k then
        Some (JsError (''Invalid property key: '' @ k
                       @ ''. Keys must be alphanumeric with underscores and hyphens''))
      else if \<not> isValidPropertyValue v then
        Some (JsError (''Invalid property value for key '' @ k
                       @ ''. Values must be strings, numbers, booleans, or null''))
      else validateEach rest)"

definition validateProperties_limit ::
  "string \<Rightarrow> nat \<Rightarrow> (string \<times> jsval) list \<Rightarrow> thrown option" where
  "validateProperties_limit who limit properties =
     (if length properties > limit then
        Some (JsError (who @ '' properties exceed maximum limit of '' @ show_nat limit))
      else validateEach properties)"

definition validateUserProperties :: "(string \<times> jsval) list \<Rightarrow> thrown option" where
  "validateUserProperties = validateProperties_limit ''User'' MAX_USER_PROPERTIES"

definition validateSessionProperties :: "(string \<times> jsval) list \<Rightarrow> thrown option" where
  "validateSessionProperties = validateProperties_limit ''Session'' MAX_SESSION_PROPERTIES"

subsection \<open>UserManager\<close>

definition getUserId :: "'a managers_scheme \<Rightarrow> jsval" where
  "getUserId m = js_or (opt_field (currentUser m) ''id'') Null"

definition createAnonymousUser ::
  "'a managers_scheme \<Rightarrow> env \<Rightarrow> adquimo_error option \<times> 'a managers_scheme" where
  "createAnonymousUser m e =
     (let anonymousUser =
            Obj [(''id'', Str (userUuid e)),
                 (''properties'', Obj []),
                 (''createdAt'', Date (now e)),
                 (''lastSeenAt'', Date (now e))]
      in case StorageManager_set (storage m) (now e) USER_ID anonymousUser None of
           Inl err \<Rightarrow> (Some (createError ''ANONYMOUS_USER_ERROR'' (Plain err)), m)
         | Inr st \<Rightarrow> (None, m\<lparr>storage := st, currentUser := anonymousUser\<rparr>))"

definition UserManager_initialize ::
  "'a managers_scheme \<Rightarrow> env \<Rightarrow> adquimo_error option \<times> 'a managers_scheme" where
  "UserManager_initialize m e =
     (case StorageManager_get (storage m) (now e) USER_ID of
        (Inl err, st) \<Rightarrow> (Some (createError ''USER_INIT_ERROR'' (Plain err)), m\<lparr>storage := st\<rparr>)
      | (Inr storedUser, st) \<Rightarrow>
          if truthy storedUser then (None, m\<lparr>storage := st, currentUser := storedUser\<rparr>)
          else (case createAnonymousUser (m\<lparr>storage := st\<rparr>) e of
                  (Some err, m') \<Rightarrow> (Some (createError ''USER_INIT_ERROR'' (Plain err)), m')
                | (None, m') \<Rightarrow> (None, m')))"

definition UserManager_identify ::
  "'a managers_scheme \<Rightarrow> env \<Rightarrow> string \<Rightarrow> (string \<times> jsval) list option
     \<Rightarrow> adquimo_error option \<times> 'a managers_scheme" where
  "UserManager_identify m e userId properties =
     (if userId = [] \<or> is_blank userId then
        (Some (createError ''USER_IDENTIFY_ERROR''
                 (JsError ''User ID is required and must be a non-empty string'')), m)
      else
        (let given = (case properties of None \<Rightarrow> [] | Some ps \<Rightarrow> ps);
             user =
               (if truthy (currentUser m) then
                  Obj (assign (spread (currentUser m))
                         [(''id'', Str userId),
                          (''properties'',
                             Obj (assign (spread (get_field (currentUser m) ''properties'')) given)),
                          (''lastSeenAt'', Date (now e))])
                else
                  Obj [(''id'', Str userId),
                       (''properties'', Obj given),
                       (''createdAt'', Date (now e)),
                       (''lastSeenAt'', Date (now e))])
         in case validateUserProperties (spread (js_or (get_field user ''properties'') (Obj []))) of
              Some err \<Rightarrow> (Some (createError ''USER_IDENTIFY_ERROR'' err), m)
            | None \<Rightarrow>
                (case StorageManager_set (storage m) (now e) USER_ID user None of
                   Inl err \<Rightarrow> (Some (createError ''USER_IDENTIFY_ERROR'' (Plain err)), m)
                 | Inr st \<Rightarrow> (None, m\<lparr>storage := st, currentUser := user\<rparr>))))"

definition UserManager_alias ::
  "'a managers_scheme \<Rightarrow> env \<Rightarrow> string \<Rightarrow> string \<Rightarrow> adquimo_error option \<times> 'a managers_scheme" where
  "UserManager_alias m e anonymousId userId =
     (if anonymousId = [] \<or> userId = [] then
        (Some (createError ''USER_ALIAS_ERROR''
                 (JsError ''Both anonymous ID and user ID are required'')), m)
      else
        (case StorageManager_get (storage m) (now e) (''anonymous_'' @ anonymousId) of
           (Inl err, st) \<Rightarrow>
             (Some (createError ''USER_ALIAS_ERROR'' (Plain err)), m\<lparr>storage := st\<rparr>)
         | (Inr anonymousUser, st) \<Rightarrow>
             if \<not> truthy anonymousUser then
               (Some (createError ''USER_ALIAS_ERROR'' (JsError ''Anonymous user not found'')),
                m\<lparr>storage := st\<rparr>)
             else
               (let user = Obj (assign (spread anonymousUser)
                                  [(''id'', Str userId), (''lastSeenAt'', Date (now e))])
                in case StorageManager_set st (now e) USER_ID user None of
                     Inl err \<Rightarrow>
                       (Some (createError ''USER_ALIAS_ERROR'' (Plain err)), m\<lparr>storage := st\<rparr>)
                   | Inr st' \<Rightarrow>
                       (None,
                        m\<lparr>storage := StorageManager_remove st' (''anonymous_'' @ anonymousId),
                          currentUser := user\<rparr>))))"

definition UserManager_reset ::
  "'a managers_scheme \<Rightarrow> env \<Rightarrow> adquimo_error option \<times> 'a managers_scheme" where
  "UserManager_reset m e =
     (let m1 = m\<lparr>currentUser := Null\<rparr>;
          m2 = m1\<lparr>storage := StorageManager_remove
                               (StorageManager_remove (storage m1) USER_ID) USER_PROPERTIES\<rparr>
      in case createAnonymousUser m2 e of
           (Some err, m') \<Rightarrow> (Some (createError ''USER_RESET_ERROR'' (Plain err)), m')
         | (None, m') \<Rightarrow> (None, m'))"

subsection \<open>SessionManager\<close>

definition getSessionId :: "'a managers_scheme \<Rightarrow> jsval" where
  "getSessionId m = js_or (opt_field (currentSession m) ''id'') Null"

definition createNewSession ::
  "'a managers_scheme \<Rightarrow> env \<Rightarrow> string option \<Rightarrow> (string \<times> jsval) list option
     \<Rightarrow> (adquimo_error + jsval) \<times> 'a managers_scheme" where
  "createNewSession m e userId properties =
     (let session =
            Obj [(''id'', Str (sessionUuid e)),
                 (''userId'', (case userId of
                                 None \<Rightarrow> Str ''anonymous''
                               | Some u \<Rightarrow> js_or (Str u) (Str ''anonymous''))),
                 (''startTime'', Date (now e)),
                 (''properties'', (case properties of None \<Rightarrow> Obj [] | Some ps \<Rightarrow> Obj ps)),
                 (''device'', device e),
                 (''browser'', browser e),
                 (''location'', Undefined)]
      in case StorageManager_set (storage m) (now e) SESSION_ID session None of
           Inl err \<Rightarrow> (Inl (createError ''SESSION_CREATE_ERROR'' (Plain err)), m)
         | Inr st \<Rightarrow>
             (Inr session,
              m\<lparr>storage := st, currentSession := session, sessionStartTime := Date (now e)\<rparr>))"

text \<open>\<^verbatim>\<open>isSessionValid\<close>: the session is known to be truthy where it is called.\<close>

definition isSessionValid :: "jsval \<Rightarrow> env \<Rightarrow> thrown + bool" where
  "isSessionValid session e =
     (if \<not> truthy (get_field session ''startTime'') then Inr False
      else
        (let maxInactivity = 30 * 60 * 1000 in
         case getTime ''session.startTime'' (get_field session ''startTime'') of
           Inl err \<Rightarrow> Inl err
         | Inr t \<Rightarrow> Inr (now e - t < maxInactivity)))"

definition SessionManager_initialize ::
  "'a managers_scheme \<Rightarrow> env \<Rightarrow> adquimo_error option \<times> 'a managers_scheme" where
  "SessionManager_initialize m e =
     (case StorageManager_get (storage m) (now e) SESSION_ID of
        (Inl err, st) \<Rightarrow>
          (Some (createError ''SESSION_INIT_ERROR'' (Plain err)), m\<lparr>storage := st\<rparr>)
      | (Inr storedSession, st) \<Rightarrow>
          (let m0 = m\<lparr>storage := st\<rparr>;
               fresh = (case createNewSession m0 e None None of
                          (Inl err, m') \<Rightarrow>
                            (Some (createError ''SESSION_INIT_ERROR'' (Plain err)), m')
                        | (Inr _, m') \<Rightarrow> (None, m'))
           in if truthy storedSession then
                (case isSessionValid storedSession e of
                   Inl err \<Rightarrow> (Some (createError ''SESSION_INIT_ERROR'' err), m0)
                 | Inr True \<Rightarrow>
                     (None, m0\<lparr>currentSession := storedSession,
                               sessionStartTime := get_field storedSession ''startTime''\<rparr>)
                 | Inr False \<Rightarrow> fresh)
              else fresh))"

definition endSession ::
  "'a managers_scheme \<Rightarrow> env \<Rightarrow> adquimo_error option \<times> 'a managers_scheme" where
  "endSession m e =
     (if \<not> truthy (currentSession m) then (None, m)
      else
        (case (if truthy (sessionStartTime m)
               then map_sum id (\<lambda>t. now e - t)
                      (getTime ''this.sessionStartTime'' (sessionStartTime m))
               else Inr 0) of
           Inl err \<Rightarrow> (Some (createError ''SESSION_END_ERROR'' err), m)
         | Inr duration \<Rightarrow>
             (let endedSession =
                    Obj (assign (spread (currentSession m))
                           [(''endTime'', Date (now e)), (''duration'', Num duration)])
              in case StorageManager_set (storage m) (now e) SESSION_ID endedSession None of
                   Inl err \<Rightarrow> (Some (createError ''SESSION_END_ERROR'' (Plain err)), m)
                 | Inr st \<Rightarrow>
                     (None, m\<lparr>storage := st, currentSession := Null,
                              sessionStartTime := Null\<rparr>))))"

definition startSession ::
  "'a managers_scheme \<Rightarrow> env \<Rightarrow> string option \<Rightarrow> (string \<times> jsval) list option
     \<Rightarrow> (adquimo_error + jsval) \<times> 'a managers_scheme" where
  "startSession m e userId properties =
     (case (if truthy (currentSession m) then endSession m e else (None, m)) of
        (Some err, m') \<Rightarrow> (Inl (createError ''SESSION_START_ERROR'' (Plain err)), m')
      | (None, m') \<Rightarrow>
          (case createNewSession m' e userId properties of
             (Inl err, m'') \<Rightarrow> (Inl (createError ''SESSION_START_ERROR'' (Plain err)), m'')
           | (Inr session, m'') \<Rightarrow> (Inr session, m'')))"

definition SessionManager_reset ::
  "'a managers_scheme \<Rightarrow> env \<Rightarrow> adquimo_error option \<times> 'a managers_scheme" where
  "SessionManager_reset m e =
     (case (if truthy (currentSession m) then endSession m e else (None, m)) of
        (Some err, m') \<Rightarrow> (Some (createError ''SESSION_RESET_ERROR'' (Plain err)), m')
      | (None, m') \<Rightarrow>
          (None,
           m'\<lparr>storage := StorageManager_remove
                            (StorageManager_remove (storage m') SESSION_ID) SESSION_PROPERTIES,
              currentSession := Null,
              sessionStartTime := Null\<rparr>))"

section \<open>TrackingManager and EventValidator\<close>

record event =
  event_id :: string
  event_name :: string
  event_category :: "string option"
  event_action :: "string option"
  event_label :: "string option"
  event_value :: "int option"
  event_properties :: "(string \<times> jsval) list"
  event_userId :: jsval
  event_sessionId :: jsval
  event_timestamp :: int
  event_source :: string
  event_version :: string

record create_event_options =
  opt_name :: string
  opt_properties :: "(string \<times> jsval) list option"
  opt_category :: "string option"
  opt_action :: "string option"
  opt_label :: "string option"
  opt_value :: "int option"

record page_view =
  pv_id :: string
  pv_url :: string
  pv_title :: "string option"
  pv_referrer :: "string option"
  pv_properties :: "(string \<times> jsval) list"
  pv_userId :: jsval
  pv_sessionId :: jsval
  pv_timestamp :: int
  pv_timeOnPage :: int

record click_event =
  click_id :: string
  click_element :: string
  click_selector :: "string option"
  click_text :: "string option"
  click_properties :: "(string \<times> jsval) list"
  click_userId :: jsval
  click_sessionId :: jsval
  click_timestamp :: int
  click_coordinates :: "(int \<times> int) option"

text \<open>
  \<^verbatim>\<open>createEvent\<close>, as it stands: the call of the validator is commented out
  (\<^verbatim>\<open>// Skip validation for now to fix tests\<close>), and nothing else inside the \<^verbatim>\<open>try\<close> throws.
\<close>

definition createEvent :: "'a managers_scheme \<Rightarrow> env \<Rightarrow> create_event_options \<Rightarrow> adquimo_error + event" where
  "createEvent m e options =
     Inr \<lparr>event_id = eventUuid e,
          event_name = opt_name options,
          event_category = opt_category options,
          event_action = opt_action options,
          event_label = opt_label options,
          event_value = opt_value options,
          event_properties = (case opt_properties options of None \<Rightarrow> [] | Some ps \<Rightarrow> ps),
          event_userId = js_or (getUserId m) Undefined,
          event_sessionId = js_or (getSessionId m) Undefined,
          event_timestamp = now e,
          event_source = ''sdk'',
          event_version = VERSION\<rparr>"

definition createPageView ::
  "'a managers_scheme \<Rightarrow> env \<Rightarrow> string \<Rightarrow> string option \<Rightarrow> string option
     \<Rightarrow> (string \<times> jsval) list option \<Rightarrow> adquimo_error + page_view" where
  "createPageView m e url title referrer properties =
     Inr \<lparr>pv_id = eventUuid e,
          pv_url = url,
          pv_title = title,
          pv_referrer = referrer,
          pv_properties = (case properties of None \<Rightarrow> [] | Some ps \<Rightarrow> ps),
          pv_userId = js_or (getUserId m) Undefined,
          pv_sessionId = js_or (getSessionId m) Undefined,
          pv_timestamp = now e,
          pv_timeOnPage = 0\<rparr>"

definition createClickEvent ::
  "'a managers_scheme \<Rightarrow> env \<Rightarrow> string \<Rightarrow> string option \<Rightarrow> string option
     \<Rightarrow> (string \<times> jsval) list option \<Rightarrow> adquimo_error + click_event" where
  "createClickEvent m e element selector txt properties =
     Inr \<lparr>click_id = eventUuid e,
          click_element = element,
          click_selector = selector,
          click_text = txt,
          click_properties = (case properties of None \<Rightarrow> [] | Some ps \<Rightarrow> ps),
          click_userId = js_or (getUserId m) Undefined,
          click_sessionId = js_or (getSessionId m) Undefined,
          click_timestamp = now e,
          click_coordinates = None\<rparr>"

text \<open>
  \<^verbatim>\<open>EventValidator.validate\<close>, the check that \<^verbatim>\<open>createEvent\<close> no longer calls. On a
  typed event the tests of \<^verbatim>\<open>typeof\<close>, of the label, the value and the timestamp cannot
  fail; the result lists the messages of the errors found, in order.
\<close>

definition isValidEventName :: "string \<Rightarrow> bool" where
  "isValidEventName n = (n \<noteq> [] \<and> list_all name_char n)"

definition is_digit :: "char \<Rightarrow> bool" where
  "is_digit c = (48 \<le> (of_char c :: nat) \<and> (of_char c :: nat) \<le> 57)"

text \<open>The pattern \<^verbatim>\<open>/^\d+\.\d+\.\d+/\<close>.\<close>

definition isValidVersion :: "string \<Rightarrow> bool" where
  "isValidVersion v =
     (let d1 = takeWhile is_digit v; r1 = dropWhile is_digit v;
          d2 = takeWhile is_digit (drop 1 r1); r2 = dropWhile is_digit (drop 1 r1);
          d3 = takeWhile is_digit (drop 1 r2)
      in d1 \<noteq> [] \<and> take 1 r1 = ''.'' \<and> d2 \<noteq> [] \<and> take 1 r2 = ''.'' \<and> d3 \<noteq> [])"

definition isValidUserId :: "jsval \<Rightarrow> bool" where
  "isValidUserId v = (case v of Str s \<Rightarrow> \<not> is_blank s | IsoStr _ \<Rightarrow> True | _ \<Rightarrow> False)"

fun validateProperties_each :: "(string \<times> jsval) list \<Rightarrow> string list" where
  "validateProperties_each [] = []"
| "validateProperties_each ((k, v) # rest) =
     (if isValidPropertyKey k then []
      else [''Property key must be alphanumeric with underscores and hyphens''])
     @ (if isValidPropertyValue v then []
        else [''Property value must be a string, number, boolean, or null''])
     @ validateProperties_each rest"

definition validateProperties :: "(string \<times> jsval) list \<Rightarrow> string list" where
  "validateProperties properties =
     (if length properties > MAX_EVENT_PROPERTIES
      then [''Properties exceed maximum limit of '' @ show_nat MAX_EVENT_PROPERTIES] else [])
     @ validateProperties_each properties"

definition validate :: "event \<Rightarrow> string list" where
  "validate ev =
     (if event_id ev = [] \<or> is_blank (event_id ev) then [''Event ID is required''] else [])
     @ (if event_name ev = [] \<or> is_blank (event_name ev) then [''Event name is required''] else [])
     @ (if event_name ev \<noteq> [] \<and> \<not> isValidEventName (event_name ev)
        then [''Event name must be alphanumeric with underscores and hyphens''] else [])
     @ validateProperties (event_properties ev)
     @ (case event_category ev of
          Some c \<Rightarrow> if c \<noteq> [] \<and> \<not> isValidEventName c
                    then [''Event category must be alphanumeric with underscores and hyphens'']
                    else []
        | None \<Rightarrow> [])
     @ (case event_action ev of
          Some a \<Rightarrow> if a \<noteq> [] \<and> \<not> isValidEventName a
                    then [''Event action must be alphanumeric with underscores and hyphens'']
                    else []
        | None \<Rightarrow> [])
     @ (if truthy (event_userId ev) \<and> \<not> isValidUserId (event_userId ev)
        then [''User ID must be a valid string''] else [])
     @ (if truthy (event_sessionId ev) \<and> \<not> isValidUserId (event_sessionId ev)
        then [''Session ID must be a valid string''] else [])
     @ (if event_source ev \<noteq> [] \<and> \<not> isValidEventName (event_source ev)
        then [''Event source must be alphanumeric with underscores and hyphens''] else [])
     @ (if event_version ev \<noteq> [] \<and> \<not> isValidVersion (event_version ev)
        then [''Event version must be a valid semantic version''] else [])"

definition isValid :: "event \<Rightarrow> bool" where
  "isValid ev = (validate ev = [])"

section \<open>NetworkManager\<close>

record retry_config =
  maxRetries :: int
  initialDelay :: int
  maxDelay :: int
  backoffMultiplier :: int

text \<open>
  What one call of \<^verbatim>\<open>makeRequest\<close> (one \<^verbatim>\<open>fetch\<close>) ends in: it throws (network error, or
  the abort of the timeout), or it yields a response, of which the status line and
  the body as JSON, if it is JSON, are kept. The transport tells the outcome of each
  attempt by its number. Reading a body is taken to succeed.
\<close>

record response =
  ok :: bool
  status :: int
  statusText :: string
  body :: "json option"

datatype fetch_result = is_Throws: Throws (thrown_of: thrown) | Responds (response_of: response)

datatype api_response = ApiSuccess json | ApiFailure adquimo_error

definition error_text :: "thrown \<Rightarrow> string" where
  "error_text e = (case e of JsError m \<Rightarrow> m | Plain _ \<Rightarrow> ''[object Object]'' | Message s \<Rightarrow> s)"

definition handleResponse :: "response \<Rightarrow> thrown + api_response" where
  "handleResponse r =
     (if \<not> ok r then
        Inr (ApiFailure (AdquimoError ''HTTP_ERROR''
                           (''HTTP '' @ show_int (status r) @ '': '' @ statusText r)))
      else
        (case body r of
           None \<Rightarrow> Inl (JsError ''Unexpected token in JSON'')
         | Some d \<Rightarrow> Inr (ApiSuccess d)))"

definition calculateDelay :: "nat \<Rightarrow> retry_config \<Rightarrow> int" where
  "calculateDelay attempt retryConfig =
     (let delay = initialDelay retryConfig * backoffMultiplier retryConfig ^ attempt
      in min delay (maxDelay retryConfig))"

definition createErrorResponse :: "thrown \<Rightarrow> api_response" where
  "createErrorResponse err = ApiFailure (AdquimoError ''NETWORK_ERROR'' (error_text err))"

text \<open>
  What \<^verbatim>\<open>request\<close> ends in, with what it did on the way: the number of calls of
  \<^verbatim>\<open>makeRequest\<close> and the delays slept between them. The result is \<open>Inl\<close> when the
  promise is rejected: \<^verbatim>\<open>return this.handleResponse(response)\<close> is not awaited inside
  the \<^verbatim>\<open>try\<close>, so what \<^verbatim>\<open>handleResponse\<close> throws is not caught by the loop.
\<close>

record request_outcome =
  result :: "thrown + api_response"
  attempts :: nat
  delays :: "int list"

function request_loop ::
  "retry_config \<Rightarrow> (nat \<Rightarrow> fetch_result) \<Rightarrow> nat \<Rightarrow> int list \<Rightarrow> thrown option \<Rightarrow> request_outcome" where
  "request_loop retryConfig transport attempt slept lastError =
     (if int attempt \<le> maxRetries retryConfig then
        (case transport attempt of
           Responds r \<Rightarrow>
             \<lparr>result = handleResponse r, attempts = Suc attempt, delays = slept\<rparr>
         | Throws err \<Rightarrow>
             if int attempt = maxRetries retryConfig then
               \<lparr>result = Inr (createErrorResponse (JsError (error_text err))),
                attempts = Suc attempt, delays = slept\<rparr>
             else
               request_loop retryConfig transport (Suc attempt)
                 (slept @ [calculateDelay attempt retryConfig]) (Some (JsError (error_text err))))
      else
        \<lparr>result = Inr (createErrorResponse
                         (case lastError of None \<Rightarrow> JsError ''Unknown error'' | Some err \<Rightarrow> err)),
         attempts = attempt, delays = slept\<rparr>)"
  by pat_completeness auto
termination
  by (relation "measure (\<lambda>(c, t, a, s, l). nat (maxRetries c + 1 - int a))") auto

declare request_loop.simps [simp del]

definition request :: "retry_config \<Rightarrow> (nat \<Rightarrow> fetch_result) \<Rightarrow> request_outcome" where
  "request retryConfig transport = request_loop retryConfig transport 0 [] None"

section \<open>AdquimoSDK, the coordinator\<close>

text \<open>
  A callback slot holds the identity of the registered function, if any; calling a
  callback appends to \<open>notified\<close>. A callback is taken not to throw.
\<close>

record callbacks =
  onEvent :: "nat option"
  onError :: "nat option"
  onSuccess :: "nat option"

datatype notification =
    EventSeen nat event
  | ErrorSeen nat adquimo_error
  | SuccessSeen nat json

record batch_request =
  batch_id :: string
  batch_events :: "event list"
  batch_timestamp :: int
  batch_size :: nat

text \<open>
  The coordinator's own fields follow those of its managers. The rest of the record
  is its surroundings: the live interval timers by handle, the transport (the outcome
  of the \<open>n\<close>-th \<^verbatim>\<open>fetch\<close> since construction) and the record of what was observed from
  outside: the batches handed to \<^verbatim>\<open>sendBatch\<close>, the delays slept, the callbacks called.
\<close>

record sdk = managers +
  batchSize :: int
  flushInterval :: int
  retryConfig :: retry_config
  isInitialized :: bool
  flushTimer :: "nat option"
  eventQueue :: "event list"
  callbacks :: callbacks
  timers :: "nat list"
  timerSeq :: nat
  net :: "nat \<Rightarrow> fetch_result"
  fetchCount :: nat
  sent :: "batch_request list"
  slept :: "int list"
  notified :: "notification list"

datatype storage_type = LocalStorage | SessionStorage | Memory

record adquimo_config =
  cfg_batchSize :: "int option"
  cfg_flushInterval :: "int option"
  cfg_retryConfig :: "retry_config option"
  cfg_storageType :: "storage_type option"
  cfg_keyPrefix :: "string option"
  cfg_maxSize :: "int option"

text \<open>\<^verbatim>\<open>x || d\<close> on an optional number and on an optional string.\<close>

definition num_or :: "int option \<Rightarrow> int \<Rightarrow> int" where
  "num_or x d = (case x of None \<Rightarrow> d | Some n \<Rightarrow> if n = 0 then d else n)"

definition str_or :: "string option \<Rightarrow> string \<Rightarrow> string" where
  "str_or x d = (case x of None \<Rightarrow> d | Some s \<Rightarrow> if s = [] then d else s)"

definition DEFAULT_BATCH_SIZE :: int where "DEFAULT_BATCH_SIZE = 50"
definition DEFAULT_FLUSH_INTERVAL :: int where "DEFAULT_FLUSH_INTERVAL = 10000"
definition DEFAULT_RETRY_ATTEMPTS :: int where "DEFAULT_RETRY_ATTEMPTS = 3"
definition DEFAULT_RETRY_DELAY :: int where "DEFAULT_RETRY_DELAY = 1000"

text \<open>
  The constructor with \<^verbatim>\<open>mergeWithDefaults\<close>, for the settings the pipeline reads.
  \<open>backend\<close> is what the chosen storage holds when the page loads (nothing, for the
  in-memory map).
\<close>

definition AdquimoSDK_new ::
  "adquimo_config \<Rightarrow> (string \<times> json) list \<Rightarrow> (nat \<Rightarrow> fetch_result) \<Rightarrow> sdk" where
  "AdquimoSDK_new config backend transport =
     \<lparr>storage =
        \<lparr>keyPrefix = str_or (cfg_keyPrefix config) ''adquimo_'',
         maxSize = num_or (cfg_maxSize config) (1024 * 1024),
         isLocalStorage = (case cfg_storageType config of Some Memory \<Rightarrow> False | _ \<Rightarrow> True),
         entries = (case cfg_storageType config of Some Memory \<Rightarrow> [] | _ \<Rightarrow> backend)\<rparr>,
      currentUser = Null,
      currentSession = Null,
      sessionStartTime = Null,
      batchSize = num_or (cfg_batchSize config) DEFAULT_BATCH_SIZE,
      flushInterval = num_or (cfg_flushInterval config) DEFAULT_FLUSH_INTERVAL,
      retryConfig =
        \<lparr>maxRetries = num_or (map_option maxRetries (cfg_retryConfig config)) DEFAULT_RETRY_ATTEMPTS,
         initialDelay = num_or (map_option initialDelay (cfg_retryConfig config)) DEFAULT_RETRY_DELAY,
         maxDelay = num_or (map_option maxDelay (cfg_retryConfig config)) (DEFAULT_RETRY_DELAY * 10),
         backoffMultiplier = num_or (map_option backoffMultiplier (cfg_retryConfig config)) 2\<rparr>,
      isInitialized = False,
      flushTimer = None,
      eventQueue = [],
      callbacks = \<lparr>onEvent = None, onError = None, onSuccess = None\<rparr>,
      timers = [],
      timerSeq = 0,
      net = transport,
      fetchCount = 0,
      sent = [],
      slept = [],
      notified = []\<rparr>"

definition notify_event :: "sdk \<Rightarrow> event \<Rightarrow> sdk" where
  "notify_event s ev =
     (case onEvent (callbacks s) of
        None \<Rightarrow> s
      | Some f \<Rightarrow> s\<lparr>notified := notified s @ [EventSeen f ev]\<rparr>)"

definition notify_error :: "sdk \<Rightarrow> adquimo_error \<Rightarrow> sdk" where
  "notify_error s err =
     (case onError (callbacks s) of
        None \<Rightarrow> s
      | Some f \<Rightarrow> s\<lparr>notified := notified s @ [ErrorSeen f err]\<rparr>)"

definition notify_success :: "sdk \<Rightarrow> json \<Rightarrow> sdk" where
  "notify_success s d =
     (case onSuccess (callbacks s) of
        None \<Rightarrow> s
      | Some f \<Rightarrow> s\<lparr>notified := notified s @ [SuccessSeen f d]\<rparr>)"

text \<open>
  \<^verbatim>\<open>setCallbacks\<close> spreads the given object over the old one: a slot that is given,
  even as undefined (\<open>Some None\<close>), replaces the old slot.
\<close>

definition setCallbacks ::
  "sdk \<Rightarrow> nat option option \<Rightarrow> nat option option \<Rightarrow> nat option option \<Rightarrow> sdk" where
  "setCallbacks s ev er su =
     s\<lparr>callbacks :=
         \<lparr>onEvent = (case ev of None \<Rightarrow> onEvent (callbacks s) | Some f \<Rightarrow> f),
          onError = (case er of None \<Rightarrow> onError (callbacks s) | Some f \<Rightarrow> f),
          onSuccess = (case su of None \<Rightarrow> onSuccess (callbacks s) | Some f \<Rightarrow> f)\<rparr>\<rparr>"

definition getCurrentUser :: "sdk \<Rightarrow> jsval" where
  "getCurrentUser s = currentUser s"

definition getCurrentSession :: "sdk \<Rightarrow> jsval" where
  "getCurrentSession s = currentSession s"

text \<open>
  \<^verbatim>\<open>NetworkManager.sendBatch\<close> in the coordinator's surroundings: the request runs
  against the transport from the next unused \<^verbatim>\<open>fetch\<close> on.
\<close>

definition sendBatch :: "sdk \<Rightarrow> batch_request \<Rightarrow> (thrown + api_response) \<times> sdk" where
  "sendBatch s batch =
     (let out = request (retryConfig s) (\<lambda>k. net s (fetchCount s + k))
      in (result out,
          s\<lparr>fetchCount := fetchCount s + attempts out,
            sent := sent s @ [batch],
            slept := slept s @ delays out\<rparr>))"

text \<open>
  \<^verbatim>\<open>flush\<close> suspends once, at \<^verbatim>\<open>await this.networkManager.sendBatch(batchRequest)\<close>.
  \<open>flush_resume\<close> is what it does after the await, given the drained events it still
  holds and the state it finds, which other calls may have changed in between;
  \<open>AdquimoSDK_flush\<close> is the call that nothing interleaves with.
\<close>

definition flush_failed :: "sdk \<Rightarrow> thrown \<Rightarrow> adquimo_error option \<times> sdk" where
  "flush_failed s err =
     (let adquimoError = createError ''FLUSH_ERROR'' err
      in (Some adquimoError, notify_error s adquimoError))"

definition flush_resume ::
  "sdk \<Rightarrow> event list \<Rightarrow> thrown + api_response \<Rightarrow> adquimo_error option \<times> sdk" where
  "flush_resume s events response =
     (case response of
        Inl err \<Rightarrow> flush_failed s err
      | Inr (ApiSuccess d) \<Rightarrow> (None, notify_success s d)
      | Inr (ApiFailure err) \<Rightarrow>
          flush_failed (s\<lparr>eventQueue := events @ eventQueue s\<rparr>) (Plain err))"

definition AdquimoSDK_flush :: "sdk \<Rightarrow> env \<Rightarrow> adquimo_error option \<times> sdk" where
  "AdquimoSDK_flush s e =
     (if eventQueue s = [] then (None, s)
      else
        (let events = eventQueue s;
             s1 = s\<lparr>eventQueue := []\<rparr>;
             batchRequest = \<lparr>batch_id = batchUuid e, batch_events = events,
                             batch_timestamp = now e, batch_size = length events\<rparr>
         in case sendBatch s1 batchRequest of
              (response, s2) \<Rightarrow> flush_resume s2 events response))"

definition queueEvent :: "sdk \<Rightarrow> env \<Rightarrow> event \<Rightarrow> adquimo_error option \<times> sdk" where
  "queueEvent s e ev =
     (let s1 = notify_event (s\<lparr>eventQueue := eventQueue s @ [ev]\<rparr>) ev
      in if int (length (eventQueue s1)) \<ge> batchSize s1 then AdquimoSDK_flush s1 e
         else (None, s1))"

text \<open>The common tail of the public operations: wrap, tell the error callback, throw.\<close>

definition fail_with :: "string \<Rightarrow> bool \<Rightarrow> sdk \<Rightarrow> thrown \<Rightarrow> adquimo_error option \<times> sdk" where
  "fail_with c tell s err =
     (let adquimoError = createError c err
      in (Some adquimoError, if tell then notify_error s adquimoError else s))"

definition not_initialized :: "sdk \<Rightarrow> string \<Rightarrow> adquimo_error option \<times> sdk" where
  "not_initialized s what =
     (Some (createError ''SDK_NOT_INITIALIZED''
              (Message (''SDK must be initialized before '' @ what))), s)"

text \<open>\<^verbatim>\<open>x || undefined\<close> on the optional arguments of the tracking calls.\<close>

definition str_opt :: "string option \<Rightarrow> string option" where
  "str_opt x = (case x of Some s \<Rightarrow> if s = [] then None else Some s | None \<Rightarrow> None)"

definition num_opt :: "int option \<Rightarrow> int option" where
  "num_opt x = (case x of Some n \<Rightarrow> if n = 0 then None else Some n | None \<Rightarrow> None)"

definition str_val :: "string option \<Rightarrow> jsval" where
  "str_val x = (case x of Some s \<Rightarrow> Str s | None \<Rightarrow> Undefined)"

definition AdquimoSDK_track ::
  "sdk \<Rightarrow> env \<Rightarrow> string \<Rightarrow> (string \<times> jsval) list option \<Rightarrow> string option \<Rightarrow> string option
     \<Rightarrow> string option \<Rightarrow> int option \<Rightarrow> adquimo_error option \<times> sdk" where
  "AdquimoSDK_track s e name properties category action label val =
     (if \<not> isInitialized s then not_initialized s ''tracking events''
      else
        (let eventOptions =
               \<lparr>opt_name = name, opt_properties = properties,
                opt_category = str_opt category, opt_action = str_opt action,
                opt_label = str_opt label, opt_value = num_opt val\<rparr>
         in case createEvent s e eventOptions of
              Inl err \<Rightarrow> fail_with ''TRACKING_ERROR'' True s (Plain err)
            | Inr ev \<Rightarrow>
                (case queueEvent s e ev of
                   (Some err, s') \<Rightarrow> fail_with ''TRACKING_ERROR'' True s' (Plain err)
                 | (None, s') \<Rightarrow> (None, s'))))"

definition AdquimoSDK_trackPageView ::
  "sdk \<Rightarrow> env \<Rightarrow> string \<Rightarrow> string option \<Rightarrow> string option \<Rightarrow> (string \<times> jsval) list option
     \<Rightarrow> adquimo_error option \<times> sdk" where
  "AdquimoSDK_trackPageView s e url title referrer properties =
     (if \<not> isInitialized s then not_initialized s ''tracking page views''
      else
        (case createPageView s e url (str_opt title) (str_opt referrer) properties of
           Inl err \<Rightarrow> fail_with ''PAGE_VIEW_ERROR'' True s (Plain err)
         | Inr pageView \<Rightarrow>
             (let ev = \<lparr>event_id = pv_id pageView,
                        event_name = ''page_view'',
                        event_category = Some ''page'',
                        event_action = Some ''view'',
                        event_label = None,
                        event_value = None,
                        event_properties =
                          assign [(''url'', Str (pv_url pageView)),
                                  (''title'', str_val (pv_title pageView)),
                                  (''referrer'', str_val (pv_referrer pageView))]
                                 (pv_properties pageView),
                        event_userId = pv_userId pageView,
                        event_sessionId = pv_sessionId pageView,
                        event_timestamp = pv_timestamp pageView,
                        event_source = ''sdk'',
                        event_version = VERSION\<rparr>
              in case queueEvent s e ev of
                   (Some err, s') \<Rightarrow> fail_with ''PAGE_VIEW_ERROR'' True s' (Plain err)
                 | (None, s') \<Rightarrow> (None, s'))))"

definition AdquimoSDK_trackClick ::
  "sdk \<Rightarrow> env \<Rightarrow> string \<Rightarrow> string option \<Rightarrow> string option \<Rightarrow> (string \<times> jsval) list option
     \<Rightarrow> adquimo_error option \<times> sdk" where
  "AdquimoSDK_trackClick s e element selector txt properties =
     (if \<not> isInitialized s then not_initialized s ''tracking clicks''
      else
        (case createClickEvent s e element (str_opt selector) (str_opt txt) properties of
           Inl err \<Rightarrow> fail_with ''CLICK_ERROR'' True s (Plain err)
         | Inr clickEvent \<Rightarrow>
             (let ev = \<lparr>event_id = click_id clickEvent,
                        event_name = ''click'',
                        event_category = Some ''interaction'',
                        event_action = Some ''click'',
                        event_label = None,
                        event_value = None,
                        event_properties =
                          assign [(''element'', Str (click_element clickEvent)),
                                  (''selector'', str_val (click_selector clickEvent)),
                                  (''text'', str_val (click_text clickEvent)),
                                  (''coordinates'',
                                     (case click_coordinates clickEvent of
                                        None \<Rightarrow> Undefined
                                      | Some (x, y) \<Rightarrow> Obj [(''x'', Num x), (''y'', Num y)]))]
                                 (click_properties clickEvent),
                        event_userId = click_userId clickEvent,
                        event_sessionId = click_sessionId clickEvent,
                        event_timestamp = click_timestamp clickEvent,
                        event_source = ''sdk'',
                        event_version = VERSION\<rparr>
              in case queueEvent s e ev of
                   (Some err, s') \<Rightarrow> fail_with ''CLICK_ERROR'' True s' (Plain err)
                 | (None, s') \<Rightarrow> (None, s'))))"

definition AdquimoSDK_identify ::
  "sdk \<Rightarrow> env \<Rightarrow> string \<Rightarrow> (string \<times> jsval) list option \<Rightarrow> adquimo_error option \<times> sdk" where
  "AdquimoSDK_identify s e userId properties =
     (if \<not> isInitialized s then not_initialized s ''identifying users''
      else
        (case UserManager_identify s e userId properties of
           (Some err, s') \<Rightarrow> fail_with ''USER_IDENTIFICATION_ERROR'' True s' (Plain err)
         | (None, s') \<Rightarrow> (None, s')))"

definition AdquimoSDK_alias :: "sdk \<Rightarrow> env \<Rightarrow> string \<Rightarrow> string \<Rightarrow> adquimo_error option \<times> sdk" where
  "AdquimoSDK_alias s e anonymousId userId =
     (if \<not> isInitialized s then not_initialized s ''aliasing users''
      else
        (case UserManager_alias s e anonymousId userId of
           (Some err, s') \<Rightarrow> fail_with ''USER_ALIAS_ERROR'' False s' (Plain err)
         | (None, s') \<Rightarrow> (None, s')))"

definition AdquimoSDK_reset :: "sdk \<Rightarrow> env \<Rightarrow> adquimo_error option \<times> sdk" where
  "AdquimoSDK_reset s e =
     (if \<not> isInitialized s then not_initialized s ''resetting''
      else
        (case UserManager_reset s e of
           (Some err, s') \<Rightarrow> fail_with ''RESET_ERROR'' False s' (Plain err)
         | (None, s') \<Rightarrow>
             (case SessionManager_reset s' e of
                (Some err, s'') \<Rightarrow> fail_with ''RESET_ERROR'' False s'' (Plain err)
              | (None, s'') \<Rightarrow> (None, s''\<lparr>eventQueue := []\<rparr>))))"

text \<open>
  \<^verbatim>\<open>startEventFlushing\<close> starts an interval timer and keeps its handle; each tick of
  the timer is \<open>timer_flush\<close>, which logs what \<^verbatim>\<open>flush\<close> throws and goes on.
\<close>

definition startEventFlushing :: "sdk \<Rightarrow> sdk" where
  "startEventFlushing s =
     s\<lparr>flushTimer := Some (timerSeq s),
       timers := timers s @ [timerSeq s],
       timerSeq := Suc (timerSeq s)\<rparr>"

definition timer_flush :: "sdk \<Rightarrow> env \<Rightarrow> sdk" where
  "timer_flush s e = snd (AdquimoSDK_flush s e)"

definition AdquimoSDK_initialize :: "sdk \<Rightarrow> env \<Rightarrow> adquimo_error option \<times> sdk" where
  "AdquimoSDK_initialize s e =
     (let s1 = s\<lparr>storage := StorageManager_initialize (storage s)\<rparr> in
      case UserManager_initialize s1 e of
        (Some err, s2) \<Rightarrow> fail_with ''INITIALIZATION_ERROR'' True s2 (Plain err)
      | (None, s2) \<Rightarrow>
          (case SessionManager_initialize s2 e of
             (Some err, s3) \<Rightarrow> fail_with ''INITIALIZATION_ERROR'' True s3 (Plain err)
           | (None, s3) \<Rightarrow>
               (None,
                notify_success ((startEventFlushing s3)\<lparr>isInitialized := True\<rparr>)
                  (JStr ''SDK initialized successfully''))))"

definition clearInterval :: "sdk \<Rightarrow> nat \<Rightarrow> sdk" where
  "clearInterval s h = s\<lparr>timers := removeAll h (timers s)\<rparr>"

definition AdquimoSDK_destroy :: "sdk \<Rightarrow> env \<Rightarrow> adquimo_error option \<times> sdk" where
  "AdquimoSDK_destroy s e =
     (case AdquimoSDK_flush s e of
        (Some err, s') \<Rightarrow> fail_with ''DESTROY_ERROR'' False s' (Plain err)
      | (None, s') \<Rightarrow>
          (let s1 = (case flushTimer s' of None \<Rightarrow> s' | Some h \<Rightarrow> clearInterval s' h)
           in (None,
               s1\<lparr>isInitialized := False,
                  eventQueue := [],
                  callbacks := \<lparr>onEvent = None, onError = None, onSuccess = None\<rparr>\<rparr>)))"

text \<open>Whether \<^verbatim>\<open>set(key, v)\<close> would store the value, that is, whether its text fits \<^verbatim>\<open>maxSize\<close>.\<close>

definition can_store :: "storage_manager \<Rightarrow> int \<Rightarrow> string \<Rightarrow> jsval \<Rightarrow> bool" where
  "can_store st t key v =
     (case StorageManager_set st t key v None of Inr _ \<Rightarrow> True | Inl _ \<Rightarrow> False)"

text \<open>What \<^verbatim>\<open>sendBatch\<close> would resolve to in state \<open>s\<close> (the transport does not look at the batch).\<close>

definition delivery :: "sdk \<Rightarrow> thrown + api_response" where
  "delivery s = result (request (retryConfig s) (\<lambda>k. net s (fetchCount s + k)))"

text \<open>
  One call \<^verbatim>\<open>track(name, properties, category, action, label, value)\<close> with what it takes
  from its surroundings, and a caller that awaits each call before the next, whatever
  it throws.
\<close>

record track_call =
  call_env :: env
  call_name :: string
  call_properties :: "(string \<times> jsval) list option"
  call_category :: "string option"
  call_action :: "string option"
  call_label :: "string option"
  call_value :: "int option"

fun track_all :: "sdk \<Rightarrow> track_call list \<Rightarrow> sdk" where
  "track_all s [] = s"
| "track_all s (c # calls) =
     track_all (snd (AdquimoSDK_track s (call_env c) (call_name c) (call_properties c)
                       (call_category c) (call_action c) (call_label c) (call_value c)))
       calls"

text \<open>The event that the call builds in state \<open>s\<close>.\<close>

definition tracked_event :: "sdk \<Rightarrow> track_call \<Rightarrow> event" where
  "tracked_event s c =
     \<lparr>event_id = eventUuid (call_env c),
      event_name = call_name c,
      event_category = str_opt (call_category c),
      event_action = str_opt (call_action c),
      event_label = str_opt (call_label c),
      event_value = num_opt (call_value c),
      event_properties = (case call_properties c of None \<Rightarrow> [] | Some ps \<Rightarrow> ps),
      event_userId = js_or (getUserId s) Undefined,
      event_sessionId = js_or (getSessionId s) Undefined,
      event_timestamp = now (call_env c),
      event_source = ''sdk'',
      event_version = VERSION\<rparr>"

section \<open>Concrete inputs\<close>

text \<open>The inputs at which the theorems below are evaluated.\<close>

definition always :: "fetch_result \<Rightarrow> nat \<Rightarrow> fetch_result" where
  "always r k = r"

definition throw_once_then :: "fetch_result \<Rightarrow> nat \<Rightarrow> fetch_result" where
  "throw_once_then r k = (if k = 0 then Throws (JsError ''Failed to fetch'') else r)"

definition retry_example :: retry_config where
  "retry_example = \<lparr>maxRetries = 3, initialDelay = 100, maxDelay = 1000, backoffMultiplier = 2\<rparr>"

definition server_error :: response where
  "server_error = \<lparr>ok = False, status = 500, statusText = ''Internal Server Error'', body = None\<rparr>"

definition storage_example :: storage_manager where
  "storage_example =
     \<lparr>keyPrefix = ''adquimo_'', maxSize = 1048576, isLocalStorage = False, entries = []\<rparr>"

definition env_example :: "int \<Rightarrow> string \<Rightarrow> env" where
  "env_example t n =
     \<lparr>now = t,
      userUuid = ''user-'' @ n,
      sessionUuid = ''session-'' @ n,
      eventUuid = ''event-'' @ n,
      batchUuid = ''batch-'' @ n,
      device = Obj [(''type'', Str ''desktop'')],
      browser = Obj [(''name'', Str ''Chrome'')]\<rparr>"

definition managers_example :: managers where
  "managers_example =
     \<lparr>storage = storage_example, currentUser = Null, currentSession = Null,
      sessionStartTime = Null\<rparr>"

text \<open>A page reload: the managers are constructed anew over the storage left behind.\<close>

definition reload :: "managers \<Rightarrow> managers" where
  "reload m = m\<lparr>currentUser := Null, currentSession := Null, sessionStartTime := Null\<rparr>"

definition stored_example :: storage_manager where
  "stored_example =
     storage_example\<lparr>entries :=
       [(''adquimo_k'',
         JObj [(''key'', JStr ''adquimo_k''), (''value'', JStr ''v''),
               (''timestamp'', JIso 0), (''ttl'', JNum 1000)])]\<rparr>"

text \<open>The managers after a first visit at instant 0, which created and persisted a session.\<close>

definition persisted_example :: managers where
  "persisted_example = snd (createNewSession managers_example (env_example 0 ''1'') None None)"

text \<open>Managers over a storage that holds an anonymous user record for \<^verbatim>\<open>anon-1\<close>.\<close>

definition alias_example :: managers where
  "alias_example =
     managers_example\<lparr>storage := storage_example\<lparr>entries :=
       [(''adquimo_anonymous_anon-1'',
         JObj [(''key'', JStr ''adquimo_anonymous_anon-1''),
               (''value'', JObj [(''id'', JStr ''anon-1''),
                                 (''properties'', JObj [(''plan'', JStr ''pro'')]),
                                 (''createdAt'', JIso 0),
                                 (''lastSeenAt'', JIso 0)]),
               (''timestamp'', JIso 0)])]\<rparr>\<rparr>"

definition ok_response :: response where
  "ok_response =
     \<lparr>ok = True, status = 200, statusText = ''OK'',
      body = Some (JObj [(''status'', JStr ''success'')])\<rparr>"

text \<open>A transport whose first \<open>n\<close> calls throw and whose later calls are answered with 200.\<close>

definition fail_first :: "nat \<Rightarrow> nat \<Rightarrow> fetch_result" where
  "fail_first n k = (if k < n then Throws (JsError ''Failed to fetch'') else Responds ok_response)"

definition config_example :: adquimo_config where
  "config_example =
     \<lparr>cfg_batchSize = Some 3, cfg_flushInterval = None, cfg_retryConfig = Some retry_example,
      cfg_storageType = Some Memory, cfg_keyPrefix = None, cfg_maxSize = None\<rparr>"

text \<open>A coordinator as constructed, and after \<^verbatim>\<open>initialize\<close> at instant 0.\<close>

definition sdk_fresh :: "(nat \<Rightarrow> fetch_result) \<Rightarrow> sdk" where
  "sdk_fresh transport = AdquimoSDK_new config_example [] transport"

definition sdk_ready :: "(nat \<Rightarrow> fetch_result) \<Rightarrow> sdk" where
  "sdk_ready transport = snd (AdquimoSDK_initialize (sdk_fresh transport) (env_example 0 ''0''))"

text \<open>An initialized coordinator (with \<^verbatim>\<open>batchSize\<close> 3) that has two events queued.\<close>

definition calls_example :: "track_call list" where
  "calls_example =
     [\<lparr>call_env = env_example 1 ''1'', call_name = ''signup'',
       call_properties = Some [(''plan'', Str ''pro''), (''seats'', Num 5)],
       call_category = None, call_action = None, call_label = None, call_value = None\<rparr>,
      \<lparr>call_env = env_example 2 ''2'', call_name = ''login'',
       call_properties = None,
       call_category = Some ''auth'', call_action = Some [], call_label = None,
       call_value = Some 0\<rparr>,
      \<lparr>call_env = env_example 3 ''3'', call_name = ''purchase'',
       call_properties = Some [(''sku'', Str ''A-1'')],
       call_category = Some ''shop'', call_action = Some ''buy'', call_label = Some ''cart'',
       call_value = Some 42\<rparr>]"

text \<open>One more call.\<close>

definition call_example :: track_call where
  "call_example =
     \<lparr>call_env = env_example 4 ''4'', call_name = ''logout'',
      call_properties = Some [(''reason'', Str ''idle'')],
      call_category = None, call_action = None, call_label = Some ''menu'', call_value = None\<rparr>"

definition sdk_queued :: "(nat \<Rightarrow> fetch_result) \<Rightarrow> sdk" where
  "sdk_queued transport = track_all (sdk_ready transport) (butlast calls_example)"

text \<open>
  An initialized coordinator after \<^verbatim>\<open>reset\<close> and \<^verbatim>\<open>destroy\<close>, and after \<^verbatim>\<open>initialize\<close> is
  called on it once more.
\<close>

definition sdk_destroyed :: sdk where
  "sdk_destroyed =
     snd (AdquimoSDK_destroy
            (snd (AdquimoSDK_reset (sdk_ready (fail_first 0)) (env_example 5 ''5'')))
            (env_example 10 ''10''))"

definition sdk_again :: sdk where
  "sdk_again = snd (AdquimoSDK_initialize sdk_destroyed (env_example 20 ''20''))"

text \<open>An event name and a property that the validator rejects.\<close>

definition invalid_properties :: "(string \<times> jsval) list" where
  "invalid_properties = [(''bad key'', Obj [(''nested'', Num 1)])]"

definition invalid_options :: create_event_options where
  "invalid_options =
     \<lparr>opt_name = ''bad name!'', opt_properties = Some invalid_properties,
      opt_category = None, opt_action = None, opt_label = None, opt_value = None\<rparr>"

definition invalid_event :: event where
  "invalid_event =
     \<lparr>event_id = ''event-1'',
      event_name = ''bad name!'',
      event_category = None,
      event_action = None,
      event_label = None,
      event_value = None,
      event_properties = invalid_properties,
      event_userId = Undefined,
      event_sessionId = Undefined,
      event_timestamp = 0,
      event_source = ''sdk'',
      event_version = ''1.0.0''\<rparr>"

section \<open>The retry loop of the Delivery Client\<close>

text \<open>
  The loop, entered at attempt \<open>a\<close> with every outcome from there on a throw, runs to
  the last attempt and sleeps after each attempt but the last.
\<close>

lemma request_loop_throws:
  assumes "\<forall>k. is_Throws (transport k)" and "int a \<le> maxRetries cfg"
  shows "request_loop cfg transport a sl le =
           \<lparr>result = Inr (createErrorResponse
                       (JsError (error_text (thrown_of (transport (nat (maxRetries cfg))))))),
            attempts = Suc (nat (maxRetries cfg)),
            delays = sl @ map (\<lambda>k. calculateDelay k cfg) [a..<nat (maxRetries cfg)]\<rparr>"
  using assms
proof (induction "nat (maxRetries cfg) - a" arbitrary: a sl le)
  case 0
  then have a: "int a = maxRetries cfg" by linarith
  obtain err where t: "transport a = Throws err"
    using 0(2) by (metis fetch_result.collapse(1))
  have n: "nat (maxRetries cfg) = a" using a by simp
  show ?case
    by (subst request_loop.simps) (simp add: a t n)
next
  case (Suc d)
  then have a: "int a < maxRetries cfg" by linarith
  obtain err where t: "transport a = Throws err"
    using Suc(3) by (metis fetch_result.collapse(1))
  have d: "d = nat (maxRetries cfg) - Suc a" using Suc(2) by simp
  have le: "int (Suc a) \<le> maxRetries cfg" using a by simp
  have up: "[a..<nat (maxRetries cfg)] = a # [Suc a..<nat (maxRetries cfg)]"
    using a by (simp add: upt_conv_Cons)
  show ?case
    using a t by (subst request_loop.simps) (simp add: Suc(1)[OF d Suc(3) le] up)
qed

text \<open>
  The loop ends at the first attempt that yields a response, whatever its status:
  the answer of \<open>handleResponse\<close> is returned from inside the \<^verbatim>\<open>try\<close>.
\<close>

lemma request_loop_responds:
  assumes "\<forall>k<n. is_Throws (transport k)" and "transport n = Responds r"
      and "int n \<le> maxRetries cfg" and "a \<le> n"
  shows "request_loop cfg transport a sl le =
           \<lparr>result = handleResponse r, attempts = Suc n,
            delays = sl @ map (\<lambda>k. calculateDelay k cfg) [a..<n]\<rparr>"
  using assms
proof (induction "n - a" arbitrary: a sl le)
  case 0
  then have "a = n" by simp
  then show ?case using 0 by (subst request_loop.simps) simp
next
  case (Suc d)
  then have a: "a < n" by linarith
  obtain err where t: "transport a = Throws err"
    using Suc(3) a by (metis fetch_result.collapse(1))
  have d: "d = n - Suc a" using Suc(2) by simp
  have up: "[a..<n] = a # [Suc a..<n]" using a by (simp add: upt_conv_Cons)
  have lt: "int a < maxRetries cfg" using a Suc(5) by linarith
  have le': "Suc a \<le> n" using a by simp
  show ?case
    using lt t by (subst request_loop.simps) (simp add: Suc(1)[OF d Suc(3) Suc(4) Suc(5) le'] up)
qed

text \<open>
  C2, as stated, fails: under the policy of three retries a transport that answers
  every attempt with status 500 is asked once, while a transport that throws on every
  attempt is asked four times.
\<close>

theorem http_error_not_retried_counterexample:
  "attempts (request retry_example (always (Responds server_error))) = 1
   \<and> delays (request retry_example (always (Responds server_error))) = []
   \<and> attempts (request retry_example (always (Throws (JsError ''Failed to fetch'')))) = 4"
  by (simp add: request_def request_loop.simps retry_example_def always_def handleResponse_def
        server_error_def calculateDelay_def createErrorResponse_def)

text \<open>
  C2, amended. A thrown transport error is retried under the retry policy; a response
  whose status is outside the success range is not: when the first \<open>n\<close> attempts throw
  and attempt \<open>n\<close> (within the budget) is answered with a non-success status, the
  request ends with that attempt, having slept only after the \<open>n\<close> attempts that threw,
  and resolves to a failure with code \<^verbatim>\<open>HTTP_ERROR\<close> that names the status.
\<close>

theorem http_error_returned_at_once:
  assumes "\<forall>k<n. is_Throws (transport k)"
      and "transport n = Responds r" and "\<not> ok r"
      and "int n \<le> maxRetries cfg"
  shows "attempts (request cfg transport) = n + 1
         \<and> delays (request cfg transport) =
             map (\<lambda>k. min (initialDelay cfg * backoffMultiplier cfg ^ k) (maxDelay cfg)) [0..<n]
         \<and> result (request cfg transport) =
             Inr (ApiFailure (AdquimoError ''HTTP_ERROR''
                                (''HTTP '' @ show_int (status r) @ '': '' @ statusText r)))"
  using request_loop_responds[OF assms(1,2,4), of 0 "[]" None] assms(3)
  by (simp add: request_def handleResponse_def calculateDelay_def)

theorem http_error_returned_at_once_witness:
  "attempts (request retry_example (throw_once_then (Responds server_error))) = 2
   \<and> delays (request retry_example (throw_once_then (Responds server_error))) = [100]
   \<and> result (request retry_example (throw_once_then (Responds server_error))) =
       Inr (ApiFailure (AdquimoError ''HTTP_ERROR'' ''HTTP 500: Internal Server Error''))"
  using http_error_returned_at_once
          [of 1 "throw_once_then (Responds server_error)" server_error retry_example]
  by (simp add: throw_once_then_def server_error_def retry_example_def show_int_def
        show_nat.simps digit_char_def)

text \<open>
  C3. With \<^verbatim>\<open>maxRetries = 3\<close>, \<^verbatim>\<open>initialDelay = 100\<close>, \<^verbatim>\<open>backoffMultiplier = 2\<close> and
  \<^verbatim>\<open>maxDelay = 1000\<close>, a transport that throws on every attempt is asked exactly four
  times, with delays of 100, 200 and 400 ms in between. In general, under a policy
  with \<^verbatim>\<open>maxRetries\<close> at least 0, it is asked \<^verbatim>\<open>maxRetries + 1\<close> times: attempt \<open>k\<close> below
  \<^verbatim>\<open>maxRetries\<close> is followed by a delay of \<open>min (initialDelay * backoffMultiplier ^ k) maxDelay\<close>,
  the last attempt by none, and the request resolves to a \<^verbatim>\<open>NETWORK_ERROR\<close> failure
  carrying the last error.
\<close>

theorem retry_schedule:
  assumes "\<forall>k. is_Throws (transport k)"
  shows "attempts (request retry_example transport) = 4
         \<and> delays (request retry_example transport) = [100, 200, 400]
         \<and> (0 \<le> maxRetries cfg \<longrightarrow>
              attempts (request cfg transport) = nat (maxRetries cfg) + 1
              \<and> delays (request cfg transport) =
                  map (\<lambda>k. min (initialDelay cfg * backoffMultiplier cfg ^ k) (maxDelay cfg))
                    [0..<nat (maxRetries cfg)]
              \<and> result (request cfg transport) =
                  Inr (ApiFailure (AdquimoError ''NETWORK_ERROR''
                         (error_text (thrown_of (transport (nat (maxRetries cfg))))))))"
proof -
  have ex: "int 0 \<le> maxRetries retry_example" by (simp add: retry_example_def)
  have up: "[0..<3] = [0, 1, 2 :: nat]" by (simp add: upt_rec)
  have "request retry_example transport =
          \<lparr>result = Inr (createErrorResponse
                       (JsError (error_text (thrown_of (transport (nat (maxRetries retry_example))))))),
           attempts = Suc (nat (maxRetries retry_example)),
           delays = [] @ map (\<lambda>k. calculateDelay k retry_example) [0..<nat (maxRetries retry_example)]\<rparr>"
    unfolding request_def by (rule request_loop_throws[OF assms ex])
  then have concrete:
    "attempts (request retry_example transport) = 4
     \<and> delays (request retry_example transport) = [100, 200, 400]"
    by (simp add: retry_example_def calculateDelay_def up)
  have general: "attempts (request cfg transport) = nat (maxRetries cfg) + 1
       \<and> delays (request cfg transport) =
           map (\<lambda>k. min (initialDelay cfg * backoffMultiplier cfg ^ k) (maxDelay cfg))
             [0..<nat (maxRetries cfg)]
       \<and> result (request cfg transport) =
           Inr (ApiFailure (AdquimoError ''NETWORK_ERROR''
                  (error_text (thrown_of (transport (nat (maxRetries cfg)))))))"
    if "0 \<le> maxRetries cfg"
  proof -
    have "int 0 \<le> maxRetries cfg" using that by simp
    from request_loop_throws[OF assms this, of "[]" None]
    show ?thesis
      by (simp add: request_def calculateDelay_def createErrorResponse_def error_text_def)
  qed
  from concrete general show ?thesis by blast
qed

theorem retry_schedule_witness:
  "attempts (request retry_example (always (Throws (JsError ''Failed to fetch'')))) = 4
   \<and> delays (request retry_example (always (Throws (JsError ''Failed to fetch'')))) = [100, 200, 400]
   \<and> result (request retry_example (always (Throws (JsError ''Failed to fetch'')))) =
       Inr (ApiFailure (AdquimoError ''NETWORK_ERROR'' ''Failed to fetch''))"
  using retry_schedule[of "always (Throws (JsError ''Failed to fetch''))" retry_example]
  by (simp add: always_def retry_example_def error_text_def)

section \<open>The Persistent Key-Value Store\<close>

lemma JSON_parse_not_Date: "JSON_parse j \<noteq> Date t"
  by (cases j) simp_all

lemma set_entries:
  "StorageManager_set st t key v ttl = Inr st' \<Longrightarrow>
     st' = st\<lparr>entries := AList.update (keyPrefix st @ key)
                 (the (to_json (storage_item (keyPrefix st @ key) v t ttl))) (entries st)\<rparr>"
  by (auto simp: StorageManager_set_def Let_def getFullKey_def JSON_stringify_def
      split: option.splits if_splits)

text \<open>
  An item stored without a TTL is read back as the JSON image of its value: the
  TTL test is skipped, and with it the call of \<^verbatim>\<open>getTime\<close>.
\<close>

lemma get_without_ttl:
  assumes "StorageManager_set st t key v None = Inr st'"
  shows "StorageManager_get st' t' key =
           (Inr (case to_json v of None \<Rightarrow> Undefined | Some j \<Rightarrow> JSON_parse j), st')"
proof -
  note s = set_entries[OF assms(1)]
  show ?thesis
    by (subst s, subst s) (simp add: StorageManager_get_def getFullKey_def update_conv'
        storage_item_def js_or_def read_prop_def get_field_def getTime_def createError_def
        split: option.splits)
qed

text \<open>
  An item stored with a TTL cannot be read at all, at whatever instant: its
  timestamp was written as an ISO string and is read back as a string, on which
  \<^verbatim>\<open>getTime\<close> is not a function. The item stays in the storage.
\<close>

lemma get_with_ttl_throws:
  assumes "StorageManager_set st t key v (Some ttl) = Inr st'" and "ttl \<noteq> 0"
  shows "StorageManager_get st' t' key =
           (Inl (AdquimoError ''STORAGE_GET_ERROR'' ''item.timestamp.getTime is not a function''),
            st')"
proof -
  note s = set_entries[OF assms(1)]
  show ?thesis
    using assms(2)
    by (subst s, subst s) (simp add: StorageManager_get_def getFullKey_def update_conv'
        storage_item_def js_or_def read_prop_def get_field_def getTime_def createError_def
        split: option.splits)
qed

lemma getKeys_removed: "key \<notin> set (getKeys (StorageManager_remove st key))"
proof
  assume "key \<in> set (getKeys (StorageManager_remove st key))"
  then obtain k where k: "k \<in> fst ` set (AList.delete (keyPrefix st @ key) (entries st))"
      and p: "take (length (keyPrefix st)) k = keyPrefix st"
      and d: "drop (length (keyPrefix st)) k = key"
    by (auto simp: getKeys_def StorageManager_remove_def getFullKey_def)
  have "k = keyPrefix st @ key"
    using p d append_take_drop_id[of "length (keyPrefix st)" k] by simp
  with k show False by (simp add: delete_notin_dom)
qed

text \<open>
  C8, at the input of the specification's own round trip: \<^verbatim>\<open>set('k', 'v', 1000)\<close> at
  instant 0 stores the item, and \<^verbatim>\<open>get('k')\<close> then throws \<^verbatim>\<open>STORAGE_GET_ERROR\<close>, at once
  as well as 5000 ms later, where the claim has it return \<^verbatim>\<open>'v'\<close> and then absent;
  the key is still listed by \<^verbatim>\<open>getKeys\<close>.
\<close>

theorem ttl_item_unreadable:
  "StorageManager_set storage_example 0 ''k'' (Str ''v'') (Some 1000) = Inr stored_example
   \<and> StorageManager_get stored_example 0 ''k'' =
       (Inl (AdquimoError ''STORAGE_GET_ERROR'' ''item.timestamp.getTime is not a function''),
        stored_example)
   \<and> StorageManager_get stored_example 5000 ''k'' =
       (Inl (AdquimoError ''STORAGE_GET_ERROR'' ''item.timestamp.getTime is not a function''),
        stored_example)
   \<and> getKeys stored_example = [''k'']"
  by (simp add: StorageManager_set_def StorageManager_get_def Let_def getFullKey_def
        storage_item_def JSON_stringify_def js_or_def read_prop_def get_field_def getTime_def
        createError_def storage_example_def stored_example_def getKeys_def
        string_text_length_def escaped_length_def iso_text_length_def show_int_def
        show_nat.simps digit_char_def)

section \<open>The Session Store\<close>

text \<open>
  On a session object as \<^verbatim>\<open>createNewSession\<close> builds it in memory, \<^verbatim>\<open>isSessionValid\<close>
  applies the rule of 30 minutes since \<^verbatim>\<open>startTime\<close>.
\<close>

lemma isSessionValid_Date:
  "isSessionValid (Obj ((''id'', i) # (''userId'', u) # (''startTime'', Date t) # rest)) e
     = Inr (now e - t < 1800000)"
  by (simp add: isSessionValid_def get_field_def getTime_def)

text \<open>
  But no session that \<^verbatim>\<open>createNewSession\<close> has persisted can be loaded again, whatever
  its age: \<^verbatim>\<open>initialize\<close> throws on the \<^verbatim>\<open>startTime\<close> it reads back, and sets nothing.
\<close>

lemma created_session_unloadable:
  assumes "createNewSession m e1 u ps = (Inr session, m1)" and "storage m' = storage m1"
  shows "SessionManager_initialize m' e2 =
     (Some (AdquimoError ''SESSION_INIT_ERROR'' ''session.startTime.getTime is not a function''), m')"
proof -
  define built where "built = Obj [(''id'', Str (sessionUuid e1)),
                 (''userId'', (case u of
                                 None \<Rightarrow> Str ''anonymous''
                               | Some u \<Rightarrow> js_or (Str u) (Str ''anonymous''))),
                 (''startTime'', Date (now e1)),
                 (''properties'', (case ps of None \<Rightarrow> Obj [] | Some ps \<Rightarrow> Obj ps)),
                 (''device'', device e1),
                 (''browser'', browser e1),
                 (''location'', Undefined)]"
  from assms(1)
  have stored: "StorageManager_set (storage m) (now e1) SESSION_ID built None = Inr (storage m1)"
    by (auto simp: createNewSession_def Let_def built_def split: sum.splits)
  have tj: "to_json built = Some (JObj ((''id'', JStr (sessionUuid e1)) #
      (''userId'', (case u of None \<Rightarrow> JStr ''anonymous''
                    | Some u \<Rightarrow> if u = [] then JStr ''anonymous'' else JStr u)) #
      (''startTime'', JIso (now e1)) #
      concat (map (\<lambda>kv. case to_json (snd kv) of None \<Rightarrow> [] | Some j \<Rightarrow> [(fst kv, j)])
         [(''properties'', (case ps of None \<Rightarrow> Obj [] | Some ps \<Rightarrow> Obj ps)),
          (''device'', device e1),
          (''browser'', browser e1),
          (''location'', Undefined)])))"
    by (simp add: built_def js_or_def split: option.splits)
  have "StorageManager_get (storage m') (now e2) SESSION_ID
          = (Inr (case to_json built of None \<Rightarrow> Undefined | Some j \<Rightarrow> JSON_parse j), storage m')"
    unfolding assms(2) by (rule get_without_ttl[OF stored])
  then show ?thesis
    by (simp add: SessionManager_initialize_def tj isSessionValid_def get_field_def getTime_def
          createError_def del: to_json.simps)
qed

text \<open>
  C7, at a session persisted at instant 0 and a reload 40 minutes later: the claim
  has \<^verbatim>\<open>initialize\<close> replace the session by a fresh one, and resume it at a reload after
  one minute; in both cases \<^verbatim>\<open>initialize\<close> throws \<^verbatim>\<open>SESSION_INIT_ERROR\<close> and leaves no
  current session.
\<close>

theorem persisted_session_not_loadable:
  "SessionManager_initialize (reload persisted_example) (env_example 2400000 ''2'') =
     (Some (AdquimoError ''SESSION_INIT_ERROR'' ''session.startTime.getTime is not a function''),
      reload persisted_example)
   \<and> SessionManager_initialize (reload persisted_example) (env_example 60000 ''2'') =
     (Some (AdquimoError ''SESSION_INIT_ERROR'' ''session.startTime.getTime is not a function''),
      reload persisted_example)
   \<and> currentSession (reload persisted_example) = Null"
  by (simp add: persisted_example_def createNewSession_def managers_example_def env_example_def
        storage_example_def StorageManager_set_def Let_def getFullKey_def storage_item_def
        JSON_stringify_def SESSION_ID_def string_text_length_def escaped_length_def
        iso_text_length_def SessionManager_initialize_def reload_def StorageManager_get_def
        read_prop_def get_field_def isSessionValid_def getTime_def createError_def)

section \<open>The Identity Store\<close>

lemma map_of_assign_id:
  "map_of (assign fs [(''id'', i), (''lastSeenAt'', l)]) k =
     (if k = ''lastSeenAt'' then Some l else if k = ''id'' then Some i else map_of fs k)"
  by (simp add: assign_def update_conv')

text \<open>
  C9. When the storage holds nothing under the key \<^verbatim>\<open>anonymous_<anonymousId>\<close>, \<^verbatim>\<open>alias\<close>
  throws \<^verbatim>\<open>USER_ALIAS_ERROR\<close> (with the message \<^verbatim>\<open>Anonymous user not found\<close>, when both
  ids are given) and changes nothing. When \<^verbatim>\<open>get\<close> finds a record under that key, both
  ids are non-empty and the re-keyed record fits the size ceiling, \<^verbatim>\<open>alias\<close> completes:
  the current user has id \<open>userId\<close> and, but for \<^verbatim>\<open>id\<close> and \<^verbatim>\<open>lastSeenAt\<close>, the fields of the
  anonymous record, and the anonymous record is gone: \<^verbatim>\<open>get\<close> yields null at any later
  instant \<open>t\<close> and \<^verbatim>\<open>getKeys\<close> does not list the key.
\<close>

theorem alias_rekeys:
  "(map_of (entries (storage m)) (getFullKey (storage m) (''anonymous_'' @ anonymousId)) = None
      \<longrightarrow> UserManager_alias m e anonymousId userId =
            (Some (AdquimoError ''USER_ALIAS_ERROR''
                     (if anonymousId = [] \<or> userId = []
                      then ''Both anonymous ID and user ID are required''
                      else ''Anonymous user not found'')), m))
   \<and> (anonymousId \<noteq> [] \<and> userId \<noteq> []
       \<and> StorageManager_get (storage m) (now e) (''anonymous_'' @ anonymousId) = (Inr (Obj fs), st)
       \<and> can_store st (now e) USER_ID
            (Obj (assign fs [(''id'', Str userId), (''lastSeenAt'', Date (now e))]))
      \<longrightarrow> fst (UserManager_alias m e anonymousId userId) = None
          \<and> getUserId (snd (UserManager_alias m e anonymousId userId)) = Str userId
          \<and> (\<forall>k. k \<noteq> ''id'' \<and> k \<noteq> ''lastSeenAt'' \<longrightarrow>
                 get_field (currentUser (snd (UserManager_alias m e anonymousId userId))) k
                   = get_field (Obj fs) k)
          \<and> fst (StorageManager_get (storage (snd (UserManager_alias m e anonymousId userId)))
                   t (''anonymous_'' @ anonymousId)) = Inr Null
          \<and> ''anonymous_'' @ anonymousId
               \<notin> set (getKeys (storage (snd (UserManager_alias m e anonymousId userId)))))"
proof (intro conjI impI)
  assume "map_of (entries (storage m)) (getFullKey (storage m) (''anonymous_'' @ anonymousId)) = None"
  then show "UserManager_alias m e anonymousId userId =
            (Some (AdquimoError ''USER_ALIAS_ERROR''
                     (if anonymousId = [] \<or> userId = []
                      then ''Both anonymous ID and user ID are required''
                      else ''Anonymous user not found'')), m)"
    by (simp add: UserManager_alias_def StorageManager_get_def createError_def)
next
  assume h: "anonymousId \<noteq> [] \<and> userId \<noteq> []
       \<and> StorageManager_get (storage m) (now e) (''anonymous_'' @ anonymousId) = (Inr (Obj fs), st)
       \<and> can_store st (now e) USER_ID
            (Obj (assign fs [(''id'', Str userId), (''lastSeenAt'', Date (now e))]))"
  let ?user = "Obj (assign fs [(''id'', Str userId), (''lastSeenAt'', Date (now e))])"
  let ?akey = "''anonymous_'' @ anonymousId"
  from h obtain st' where st': "StorageManager_set st (now e) USER_ID ?user None = Inr st'"
    by (auto simp: can_store_def split: sum.splits)
  have res: "UserManager_alias m e anonymousId userId =
          (None, m\<lparr>storage := StorageManager_remove st' ?akey, currentUser := ?user\<rparr>)"
    using h st' by (simp add: UserManager_alias_def spread_def)
  show "fst (UserManager_alias m e anonymousId userId) = None"
    by (simp add: res)
  show "getUserId (snd (UserManager_alias m e anonymousId userId)) = Str userId"
    using h by (simp add: res getUserId_def opt_field_def get_field_def map_of_assign_id js_or_def)
  show "\<forall>k. k \<noteq> ''id'' \<and> k \<noteq> ''lastSeenAt'' \<longrightarrow>
                 get_field (currentUser (snd (UserManager_alias m e anonymousId userId))) k
                   = get_field (Obj fs) k"
    by (simp add: res get_field_def map_of_assign_id)
  show "fst (StorageManager_get (storage (snd (UserManager_alias m e anonymousId userId)))
                   t ?akey) = Inr Null"
    by (simp add: res StorageManager_get_def StorageManager_remove_def getFullKey_def delete_conv')
  show "?akey \<notin> set (getKeys (storage (snd (UserManager_alias m e anonymousId userId))))"
    by (simp add: res getKeys_removed)
qed

theorem alias_rekeys_witness:
  "UserManager_alias managers_example (env_example 5 ''1'') ''anon-1'' ''user-1'' =
     (Some (AdquimoError ''USER_ALIAS_ERROR'' ''Anonymous user not found''), managers_example)
   \<and> fst (UserManager_alias alias_example (env_example 5 ''1'') ''anon-1'' ''user-1'') = None
   \<and> getUserId (snd (UserManager_alias alias_example (env_example 5 ''1'') ''anon-1'' ''user-1''))
       = Str ''user-1''
   \<and> get_field (currentUser (snd (UserManager_alias alias_example (env_example 5 ''1'')
                                     ''anon-1'' ''user-1''))) ''properties''
       = Obj [(''plan'', Str ''pro'')]
   \<and> ''anonymous_anon-1''
       \<notin> set (getKeys (storage (snd (UserManager_alias alias_example (env_example 5 ''1'')
                                        ''anon-1'' ''user-1''))))"
  using alias_rekeys[where m = managers_example and anonymousId = "''anon-1''"
                       and userId = "''user-1''" and e = "env_example 5 ''1''"]
        alias_rekeys[where m = alias_example and anonymousId = "''anon-1''"
                       and userId = "''user-1''" and e = "env_example 5 ''1''"
                       and fs = "[(''id'', Str ''anon-1''),
                                  (''properties'', Obj [(''plan'', Str ''pro'')]),
                                  (''createdAt'', IsoStr 0),
                                  (''lastSeenAt'', IsoStr 0)]"
                       and st = "storage alias_example"]
  by (simp add: managers_example_def alias_example_def storage_example_def env_example_def
        getFullKey_def StorageManager_get_def read_prop_def get_field_def can_store_def
        StorageManager_set_def Let_def storage_item_def JSON_stringify_def assign_def USER_ID_def
        string_text_length_def escaped_length_def iso_text_length_def)

section \<open>The coordinator: flushing\<close>

lemma sendBatch_eq:
  "sendBatch s b =
     (delivery s,
      s\<lparr>fetchCount := fetchCount s + attempts (request (retryConfig s) (\<lambda>k. net s (fetchCount s + k))),
        sent := sent s @ [b],
        slept := slept s @ delays (request (retryConfig s) (\<lambda>k. net s (fetchCount s + k)))\<rparr>)"
  by (simp add: sendBatch_def delivery_def Let_def)

lemma delivery_queue [simp]: "delivery (s\<lparr>eventQueue := q\<rparr>) = delivery s"
  by (simp add: delivery_def)

lemma delivery_notified [simp]: "delivery (s\<lparr>notified := n\<rparr>) = delivery s"
  by (simp add: delivery_def)

lemma notify_error_fields [simp]:
  "eventQueue (notify_error s err) = eventQueue s"
  "isInitialized (notify_error s err) = isInitialized s"
  "timers (notify_error s err) = timers s"
  "flushTimer (notify_error s err) = flushTimer s"
  "callbacks (notify_error s err) = callbacks s"
  "sent (notify_error s err) = sent s"
  "batchSize (notify_error s err) = batchSize s"
  "delivery (notify_error s err) = delivery s"
  by (simp_all add: notify_error_def split: option.splits)

lemma notify_success_fields [simp]:
  "eventQueue (notify_success s d) = eventQueue s"
  "isInitialized (notify_success s d) = isInitialized s"
  "sent (notify_success s d) = sent s"
  "batchSize (notify_success s d) = batchSize s"
  "currentUser (notify_success s d) = currentUser s"
  "currentSession (notify_success s d) = currentSession s"
  by (simp_all add: notify_success_def split: option.splits)

lemma flush_fails:
  assumes "eventQueue s \<noteq> []" and "delivery s = Inr (ApiFailure err)"
  shows "fst (AdquimoSDK_flush s e) = Some (AdquimoError ''FLUSH_ERROR'' ''[object Object]'')"
    and "eventQueue (snd (AdquimoSDK_flush s e)) = eventQueue s"
    and "isInitialized (snd (AdquimoSDK_flush s e)) = isInitialized s"
    and "timers (snd (AdquimoSDK_flush s e)) = timers s"
    and "flushTimer (snd (AdquimoSDK_flush s e)) = flushTimer s"
    and "callbacks (snd (AdquimoSDK_flush s e)) = callbacks s"
    and "sent (snd (AdquimoSDK_flush s e)) =
           sent s @ [\<lparr>batch_id = batchUuid e, batch_events = eventQueue s,
                      batch_timestamp = now e, batch_size = length (eventQueue s)\<rparr>]"
  using assms
  by (simp_all add: AdquimoSDK_flush_def Let_def sendBatch_eq flush_resume_def flush_failed_def
        createError_def)

lemma flush_succeeds:
  assumes "eventQueue s \<noteq> []" and "delivery s = Inr (ApiSuccess d)"
  shows "fst (AdquimoSDK_flush s e) = None"
    and "eventQueue (snd (AdquimoSDK_flush s e)) = []"
    and "sent (snd (AdquimoSDK_flush s e)) =
           sent s @ [\<lparr>batch_id = batchUuid e, batch_events = eventQueue s,
                      batch_timestamp = now e, batch_size = length (eventQueue s)\<rparr>]"
    and "isInitialized (snd (AdquimoSDK_flush s e)) = isInitialized s"
    and "batchSize (snd (AdquimoSDK_flush s e)) = batchSize s"
    and "currentUser (snd (AdquimoSDK_flush s e)) = currentUser s"
    and "currentSession (snd (AdquimoSDK_flush s e)) = currentSession s"
  using assms
  by (simp_all add: AdquimoSDK_flush_def Let_def sendBatch_eq flush_resume_def)

text \<open>
  When \<^verbatim>\<open>sendBatch\<close> rejects instead (in this model: a response with a success status
  whose body is not JSON), \<^verbatim>\<open>flush\<close> throws as well, but the \<^verbatim>\<open>else\<close> branch that
  re-queues is not reached: the drained events are not put back.
\<close>

lemma flush_rejected:
  assumes "eventQueue s \<noteq> []" and "delivery s = Inl err"
  shows "fst (AdquimoSDK_flush s e) = Some (createError ''FLUSH_ERROR'' err)"
    and "eventQueue (snd (AdquimoSDK_flush s e)) = []"
  using assms
  by (simp_all add: AdquimoSDK_flush_def Let_def sendBatch_eq flush_resume_def flush_failed_def)

text \<open>
  C4. When the delivery of a flush fails (\<^verbatim>\<open>sendBatch\<close> resolves to a response with
  \<^verbatim>\<open>success: false\<close>, as it does once the retries are exhausted and on a non-success
  status), \<^verbatim>\<open>flush\<close> puts the events it drained back in front of whatever the queue holds
  when it resumes, in their order, and throws \<^verbatim>\<open>FLUSH_ERROR\<close>. So a flush of a non-empty
  queue that fails leaves the queue as it was, and when the next flush succeeds, the
  batch then accepted is the original queue, each event once and in order, and the
  queue is empty.
\<close>

theorem flush_requeues:
  "eventQueue (snd (flush_resume s events (Inr (ApiFailure err)))) = events @ eventQueue s
   \<and> fst (flush_resume s events (Inr (ApiFailure err)))
       = Some (AdquimoError ''FLUSH_ERROR'' ''[object Object]'')
   \<and> (eventQueue s \<noteq> [] \<and> delivery s = Inr (ApiFailure err) \<longrightarrow>
        fst (AdquimoSDK_flush s e1) = Some (AdquimoError ''FLUSH_ERROR'' ''[object Object]'')
        \<and> eventQueue (snd (AdquimoSDK_flush s e1)) = eventQueue s
        \<and> (delivery (snd (AdquimoSDK_flush s e1)) = Inr (ApiSuccess d) \<longrightarrow>
             fst (AdquimoSDK_flush (snd (AdquimoSDK_flush s e1)) e2) = None
             \<and> eventQueue (snd (AdquimoSDK_flush (snd (AdquimoSDK_flush s e1)) e2)) = []
             \<and> map batch_events (sent (snd (AdquimoSDK_flush (snd (AdquimoSDK_flush s e1)) e2)))
                 = map batch_events (sent s) @ [eventQueue s, eventQueue s]))"
proof (intro conjI impI)
  show "eventQueue (snd (flush_resume s events (Inr (ApiFailure err)))) = events @ eventQueue s"
    by (simp add: flush_resume_def flush_failed_def Let_def)
  show "fst (flush_resume s events (Inr (ApiFailure err)))
       = Some (AdquimoError ''FLUSH_ERROR'' ''[object Object]'')"
    by (simp add: flush_resume_def flush_failed_def createError_def Let_def)
next
  assume h: "eventQueue s \<noteq> [] \<and> delivery s = Inr (ApiFailure err)"
  then have q: "eventQueue s \<noteq> []" and f: "delivery s = Inr (ApiFailure err)" by simp_all
  show "fst (AdquimoSDK_flush s e1) = Some (AdquimoError ''FLUSH_ERROR'' ''[object Object]'')"
    by (rule flush_fails(1)[OF q f])
  show q1: "eventQueue (snd (AdquimoSDK_flush s e1)) = eventQueue s"
    by (rule flush_fails(2)[OF q f])
  assume ok: "delivery (snd (AdquimoSDK_flush s e1)) = Inr (ApiSuccess d)"
  have q1': "eventQueue (snd (AdquimoSDK_flush s e1)) \<noteq> []" using q q1 by simp
  show "fst (AdquimoSDK_flush (snd (AdquimoSDK_flush s e1)) e2) = None"
    by (rule flush_succeeds(1)[OF q1' ok])
  show "eventQueue (snd (AdquimoSDK_flush (snd (AdquimoSDK_flush s e1)) e2)) = []"
    by (rule flush_succeeds(2)[OF q1' ok])
  show "map batch_events (sent (snd (AdquimoSDK_flush (snd (AdquimoSDK_flush s e1)) e2)))
                 = map batch_events (sent s) @ [eventQueue s, eventQueue s]"
    by (simp add: flush_succeeds(3)[OF q1' ok] flush_fails(7)[OF q f] q1)
qed

text \<open>
  C10. When the queue is not empty and the delivery of the final flush fails,
  \<^verbatim>\<open>destroy\<close> throws \<^verbatim>\<open>DESTROY_ERROR\<close> and tears nothing down: the interval timer keeps
  running, the callbacks and the queue are as before, and the coordinator is still
  initialized if it was.
\<close>

theorem failed_final_flush_aborts_destroy:
  assumes "eventQueue s \<noteq> []" and "delivery s = Inr (ApiFailure err)"
  shows "fst (AdquimoSDK_destroy s e) = Some (AdquimoError ''DESTROY_ERROR'' ''[object Object]'')
         \<and> timers (snd (AdquimoSDK_destroy s e)) = timers s
         \<and> flushTimer (snd (AdquimoSDK_destroy s e)) = flushTimer s
         \<and> callbacks (snd (AdquimoSDK_destroy s e)) = callbacks s
         \<and> eventQueue (snd (AdquimoSDK_destroy s e)) = eventQueue s
         \<and> isInitialized (snd (AdquimoSDK_destroy s e)) = isInitialized s"
proof -
  obtain r s' where fl: "AdquimoSDK_flush s e = (r, s')" by (cases "AdquimoSDK_flush s e")
  from flush_fails[OF assms, of e] fl
  have r: "r = Some (AdquimoError ''FLUSH_ERROR'' ''[object Object]'')"
    and s': "eventQueue s' = eventQueue s" "isInitialized s' = isInitialized s"
        "timers s' = timers s" "flushTimer s' = flushTimer s" "callbacks s' = callbacks s"
    by simp_all
  show ?thesis
    by (simp add: AdquimoSDK_destroy_def fl r s' fail_with_def createError_def Let_def)
qed

section \<open>The coordinator: tracking\<close>

lemma notify_event_fields [simp]:
  "eventQueue (notify_event s ev) = eventQueue s"
  "isInitialized (notify_event s ev) = isInitialized s"
  "sent (notify_event s ev) = sent s"
  "batchSize (notify_event s ev) = batchSize s"
  "currentUser (notify_event s ev) = currentUser s"
  "currentSession (notify_event s ev) = currentSession s"
  "delivery (notify_event s ev) = delivery s"
  by (simp_all add: notify_event_def split: option.splits)

lemma tracked_event_cong:
  "currentUser s' = currentUser s \<Longrightarrow> currentSession s' = currentSession s \<Longrightarrow>
     tracked_event s' c = tracked_event s c"
  by (simp add: tracked_event_def getUserId_def getSessionId_def)

lemma createEvent_tracked:
  "createEvent s (call_env c)
     \<lparr>opt_name = call_name c, opt_properties = call_properties c,
      opt_category = str_opt (call_category c), opt_action = str_opt (call_action c),
      opt_label = str_opt (call_label c), opt_value = num_opt (call_value c)\<rparr>
     = Inr (tracked_event s c)"
  by (simp add: createEvent_def tracked_event_def)

text \<open>
  A call of \<^verbatim>\<open>track\<close>, with whatever arguments, that leaves the queue below \<^verbatim>\<open>batchSize\<close>
  only queues its event.
\<close>

lemma track_queues:
  assumes "isInitialized s" and "int (length (eventQueue s)) + 1 < batchSize s"
  shows "AdquimoSDK_track s (call_env c) (call_name c) (call_properties c)
                (call_category c) (call_action c) (call_label c) (call_value c) =
           (None, notify_event (s\<lparr>eventQueue := eventQueue s @ [tracked_event s c]\<rparr>)
                    (tracked_event s c))"
  using assms
  by (simp add: AdquimoSDK_track_def createEvent_tracked queueEvent_def Let_def)

lemma track_all_append: "track_all s (xs @ ys) = track_all (track_all s xs) ys"
  by (induction xs arbitrary: s) auto

lemma track_all_queues:
  assumes "isInitialized s" and "int (length (eventQueue s) + length cs) < batchSize s"
  shows "eventQueue (track_all s cs) = eventQueue s @ map (tracked_event s) cs
         \<and> sent (track_all s cs) = sent s
         \<and> isInitialized (track_all s cs)
         \<and> batchSize (track_all s cs) = batchSize s
         \<and> currentUser (track_all s cs) = currentUser s
         \<and> currentSession (track_all s cs) = currentSession s
         \<and> delivery (track_all s cs) = delivery s"
  using assms
proof (induction cs arbitrary: s)
  case Nil
  then show ?case by simp
next
  case (Cons c cs)
  define s1 where "s1 = notify_event (s\<lparr>eventQueue := eventQueue s @ [tracked_event s c]\<rparr>)
                    (tracked_event s c)"
  have lt: "int (length (eventQueue s)) + 1 < batchSize s" using Cons.prems(2) by simp
  have step: "AdquimoSDK_track s (call_env c) (call_name c) (call_properties c)
                (call_category c) (call_action c) (call_label c) (call_value c) = (None, s1)"
    unfolding s1_def by (rule track_queues[OF Cons.prems(1) lt])
  have f1: "eventQueue s1 = eventQueue s @ [tracked_event s c]" "sent s1 = sent s"
      "isInitialized s1 = isInitialized s" "batchSize s1 = batchSize s"
      "currentUser s1 = currentUser s" "currentSession s1 = currentSession s"
      "delivery s1 = delivery s"
    by (simp_all add: s1_def)
  have i1: "isInitialized s1" using Cons.prems(1) f1 by simp
  have b1: "int (length (eventQueue s1) + length cs) < batchSize s1"
    using Cons.prems(2) f1 by simp
  have te: "map (tracked_event s1) cs = map (tracked_event s) cs"
    using tracked_event_cong[OF f1(5) f1(6)] by simp
  have ta: "track_all s (c # cs) = track_all s1 cs" by (simp add: step)
  from Cons.IH[OF i1 b1] show ?case
    unfolding ta te f1 by simp
qed

text \<open>A flush of a non-empty queue hands exactly one batch to \<^verbatim>\<open>sendBatch\<close>, however it ends.\<close>

lemma flush_sent:
  assumes "eventQueue s \<noteq> []"
  shows "sent (snd (AdquimoSDK_flush s e)) =
           sent s @ [\<lparr>batch_id = batchUuid e, batch_events = eventQueue s,
                      batch_timestamp = now e, batch_size = length (eventQueue s)\<rparr>]"
  using assms
  by (simp add: AdquimoSDK_flush_def Let_def sendBatch_eq flush_resume_def flush_failed_def
        split: sum.splits api_response.splits)

lemma track_flushes_sent:
  assumes "isInitialized s" and "batchSize s \<le> int (length (eventQueue s)) + 1"
  shows "sent (snd (AdquimoSDK_track s (call_env c) (call_name c) (call_properties c)
                (call_category c) (call_action c) (call_label c) (call_value c))) =
           sent s @ [\<lparr>batch_id = batchUuid (call_env c),
                      batch_events = eventQueue s @ [tracked_event s c],
                      batch_timestamp = now (call_env c),
                      batch_size = length (eventQueue s) + 1\<rparr>]"
proof -
  define s1 where "s1 = notify_event (s\<lparr>eventQueue := eventQueue s @ [tracked_event s c]\<rparr>)
                    (tracked_event s c)"
  have f1: "eventQueue s1 = eventQueue s @ [tracked_event s c]" "sent s1 = sent s"
      "batchSize s1 = batchSize s"
    by (simp_all add: s1_def)
  have ne: "eventQueue s1 \<noteq> []" by (simp add: f1)
  have q: "queueEvent s (call_env c) (tracked_event s c) = AdquimoSDK_flush s1 (call_env c)"
    using assms(2) by (simp add: queueEvent_def Let_def s1_def[symmetric] f1)
  obtain r s2 where fl: "AdquimoSDK_flush s1 (call_env c) = (r, s2)"
    by (cases "AdquimoSDK_flush s1 (call_env c)")
  have s2: "sent s2 = sent s @ [\<lparr>batch_id = batchUuid (call_env c),
                      batch_events = eventQueue s @ [tracked_event s c],
                      batch_timestamp = now (call_env c),
                      batch_size = length (eventQueue s) + 1\<rparr>]"
    using flush_sent[OF ne, of "call_env c"] by (simp add: fl f1)
  show ?thesis
    using assms(1)
    by (cases r) (simp_all add: AdquimoSDK_track_def createEvent_tracked q fl s2 fail_with_def Let_def)
qed

lemma track_flushes_ok:
  fixes c :: track_call
  assumes "isInitialized s" and "batchSize s \<le> int (length (eventQueue s)) + 1"
      and "delivery s = Inr (ApiSuccess d)"
  shows "fst (AdquimoSDK_track s (call_env c) (call_name c) (call_properties c)
                (call_category c) (call_action c) (call_label c) (call_value c)) = None"
    and "eventQueue (snd (AdquimoSDK_track s (call_env c) (call_name c) (call_properties c)
                (call_category c) (call_action c) (call_label c) (call_value c))) = []"
    and "isInitialized (snd (AdquimoSDK_track s (call_env c) (call_name c) (call_properties c)
                (call_category c) (call_action c) (call_label c) (call_value c)))"
    and "batchSize (snd (AdquimoSDK_track s (call_env c) (call_name c) (call_properties c)
                (call_category c) (call_action c) (call_label c) (call_value c))) = batchSize s"
    and "currentUser (snd (AdquimoSDK_track s (call_env c) (call_name c) (call_properties c)
                (call_category c) (call_action c) (call_label c) (call_value c))) = currentUser s"
    and "currentSession (snd (AdquimoSDK_track s (call_env c) (call_name c) (call_properties c)
                (call_category c) (call_action c) (call_label c) (call_value c))) = currentSession s"
proof -
  define s1 where "s1 = notify_event (s\<lparr>eventQueue := eventQueue s @ [tracked_event s c]\<rparr>)
                    (tracked_event s c)"
  have f1: "eventQueue s1 = eventQueue s @ [tracked_event s c]"
      "batchSize s1 = batchSize s" "isInitialized s1 = isInitialized s"
      "currentUser s1 = currentUser s" "currentSession s1 = currentSession s"
      "delivery s1 = delivery s"
    by (simp_all add: s1_def)
  have ne: "eventQueue s1 \<noteq> []" by (simp add: f1)
  have ok: "delivery s1 = Inr (ApiSuccess d)" using assms(3) f1 by simp
  have q: "queueEvent s (call_env c) (tracked_event s c) = AdquimoSDK_flush s1 (call_env c)"
    using assms(2) by (simp add: queueEvent_def Let_def s1_def[symmetric] f1)
  obtain r s2 where fl: "AdquimoSDK_flush s1 (call_env c) = (r, s2)"
    by (cases "AdquimoSDK_flush s1 (call_env c)")
  from flush_succeeds[OF ne ok, of "call_env c"] fl
  have r: "r = None" and s2: "eventQueue s2 = []" "isInitialized s2 = isInitialized s1"
      "batchSize s2 = batchSize s1" "currentUser s2 = currentUser s1"
      "currentSession s2 = currentSession s1"
    by simp_all
  have t: "AdquimoSDK_track s (call_env c) (call_name c) (call_properties c)
                (call_category c) (call_action c) (call_label c) (call_value c) = (None, s2)"
    using assms(1) by (simp add: AdquimoSDK_track_def createEvent_tracked q fl r Let_def)
  show "fst (AdquimoSDK_track s (call_env c) (call_name c) (call_properties c)
                (call_category c) (call_action c) (call_label c) (call_value c)) = None"
    and "eventQueue (snd (AdquimoSDK_track s (call_env c) (call_name c) (call_properties c)
                (call_category c) (call_action c) (call_label c) (call_value c))) = []"
    and "isInitialized (snd (AdquimoSDK_track s (call_env c) (call_name c) (call_properties c)
                (call_category c) (call_action c) (call_label c) (call_value c)))"
    and "batchSize (snd (AdquimoSDK_track s (call_env c) (call_name c) (call_properties c)
                (call_category c) (call_action c) (call_label c) (call_value c))) = batchSize s"
    and "currentUser (snd (AdquimoSDK_track s (call_env c) (call_name c) (call_properties c)
                (call_category c) (call_action c) (call_label c) (call_value c))) = currentUser s"
    and "currentSession (snd (AdquimoSDK_track s (call_env c) (call_name c) (call_properties c)
                (call_category c) (call_action c) (call_label c) (call_value c))) = currentSession s"
    using assms(1) by (simp_all add: t s2 f1)
qed

text \<open>
  C6. Start from an initialized coordinator with an empty queue and let a caller
  track \<^verbatim>\<open>batchSize\<close> events, one call after the other, each call with whatever name,
  properties, category, action, label and value. The calls before the last hand
  nothing to \<^verbatim>\<open>sendBatch\<close> and only queue their events; the last call, which brings the
  queue to \<^verbatim>\<open>batchSize\<close>, triggers exactly one flush, whose batch holds all the events
  in order. The flush is awaited inside that call: when the delivery succeeds the
  queue is empty when the call returns, and (for \<^verbatim>\<open>batchSize\<close> above 1) one more call
  queues its event alone, without another flush.
\<close>

theorem batch_size_triggers_one_flush:
  assumes "isInitialized s" and "eventQueue s = []" and "calls \<noteq> []"
      and "batchSize s = int (length calls)"
  shows "sent (track_all s (butlast calls)) = sent s
         \<and> eventQueue (track_all s (butlast calls)) = map (tracked_event s) (butlast calls)
         \<and> sent (track_all s calls) =
             sent s @ [\<lparr>batch_id = batchUuid (call_env (last calls)),
                        batch_events = map (tracked_event s) calls,
                        batch_timestamp = now (call_env (last calls)),
                        batch_size = length calls\<rparr>]
         \<and> (delivery s = Inr (ApiSuccess d) \<longrightarrow>
               eventQueue (track_all s calls) = []
               \<and> (1 < length calls \<longrightarrow>
                     eventQueue (track_all s (calls @ [c])) = [tracked_event s c]
                     \<and> sent (track_all s (calls @ [c])) = sent (track_all s calls)))"
proof -
  define cs where "cs = butlast calls"
  define l where "l = last calls"
  have calls: "calls = cs @ [l]"
    using append_butlast_last_id[OF assms(3)] by (simp add: cs_def l_def)
  define s' where "s' = track_all s cs"
  have below: "int (length (eventQueue s) + length cs) < batchSize s"
    using assms(2,4) calls by simp
  note inv = track_all_queues[OF assms(1) below, folded s'_def]
  have q': "eventQueue s' = map (tracked_event s) cs" using inv assms(2) by simp
  have i': "isInitialized s'" using inv by simp
  have full: "batchSize s' \<le> int (length (eventQueue s')) + 1"
    using inv q' assms(4) calls by simp
  have te: "tracked_event s' l = tracked_event s l"
    by (rule tracked_event_cong) (use inv in simp_all)
  have all: "track_all s calls = snd (AdquimoSDK_track s' (call_env l) (call_name l) (call_properties l)
                (call_category l) (call_action l) (call_label l) (call_value l))"
    by (simp add: calls track_all_append s'_def)
  have sent_all: "sent (track_all s calls) =
             sent s @ [\<lparr>batch_id = batchUuid (call_env (last calls)),
                        batch_events = map (tracked_event s) calls,
                        batch_timestamp = now (call_env (last calls)),
                        batch_size = length calls\<rparr>]"
    using track_flushes_sent[OF i' full, of l] inv
    by (simp add: all q' te l_def[symmetric]) (simp add: calls)
  have after: "eventQueue (track_all s calls) = []
               \<and> (1 < length calls \<longrightarrow>
                     eventQueue (track_all s (calls @ [c])) = [tracked_event s c]
                     \<and> sent (track_all s (calls @ [c])) = sent (track_all s calls))"
    if ok: "delivery s = Inr (ApiSuccess d)"
  proof -
    have ok': "delivery s' = Inr (ApiSuccess d)" using inv ok by simp
    note fin = track_flushes_ok[OF i' full ok', of l, folded all]
    have one: "eventQueue (track_all s (calls @ [c])) = [tracked_event s c]
                     \<and> sent (track_all s (calls @ [c])) = sent (track_all s calls)"
      if more: "1 < length calls"
    proof -
      have b: "int (length (eventQueue (track_all s calls)) + length [c]) < batchSize (track_all s calls)"
        using fin inv assms(4) more by simp
      from track_all_queues[OF fin(3) b]
      have "eventQueue (track_all (track_all s calls) [c]) = [tracked_event (track_all s calls) c]"
        and "sent (track_all (track_all s calls) [c]) = sent (track_all s calls)"
        using fin(2) by simp_all
      moreover have "tracked_event (track_all s calls) c = tracked_event s c"
        by (rule tracked_event_cong) (use fin(5,6) inv in simp_all)
      ultimately show ?thesis by (simp add: track_all_append)
    qed
    from fin(2) one show ?thesis by blast
  qed
  have before: "sent (track_all s (butlast calls)) = sent s
         \<and> eventQueue (track_all s (butlast calls)) = map (tracked_event s) (butlast calls)"
    using inv q' unfolding s'_def cs_def by simp
  from before sent_all after show ?thesis by blast
qed

section \<open>The flushing and tracking theorems at concrete inputs\<close>

theorem flush_requeues_witness:
  "fst (AdquimoSDK_flush (sdk_queued (fail_first 4)) (env_example 4 ''4''))
     = Some (AdquimoError ''FLUSH_ERROR'' ''[object Object]'')
   \<and> eventQueue (snd (AdquimoSDK_flush (sdk_queued (fail_first 4)) (env_example 4 ''4'')))
       = eventQueue (sdk_queued (fail_first 4))
   \<and> fst (AdquimoSDK_flush (snd (AdquimoSDK_flush (sdk_queued (fail_first 4)) (env_example 4 ''4'')))
            (env_example 5 ''5'')) = None
   \<and> eventQueue (snd (AdquimoSDK_flush
                        (snd (AdquimoSDK_flush (sdk_queued (fail_first 4)) (env_example 4 ''4'')))
                        (env_example 5 ''5''))) = []
   \<and> map event_name (eventQueue (sdk_queued (fail_first 4))) = [''signup'', ''login'']"
proof -
  have a: "eventQueue (sdk_queued (fail_first 4)) \<noteq> []
      \<and> delivery (sdk_queued (fail_first 4))
          = Inr (ApiFailure (AdquimoError ''NETWORK_ERROR'' ''Failed to fetch''))"
    by code_simp
  have b: "delivery (snd (AdquimoSDK_flush (sdk_queued (fail_first 4)) (env_example 4 ''4'')))
         = Inr (ApiSuccess (JObj [(''status'', JStr ''success'')]))"
    by code_simp
  have c: "map event_name (eventQueue (sdk_queued (fail_first 4))) = [''signup'', ''login'']"
    by code_simp
  from flush_requeues[of "sdk_queued (fail_first 4)" "[]"
         "AdquimoError ''NETWORK_ERROR'' ''Failed to fetch''" "env_example 4 ''4''"
         "JObj [(''status'', JStr ''success'')]" "env_example 5 ''5''"] a b c
  show ?thesis by blast
qed

theorem failed_final_flush_aborts_destroy_witness:
  "fst (AdquimoSDK_destroy (sdk_queued (always (Responds server_error))) (env_example 4 ''4''))
     = Some (AdquimoError ''DESTROY_ERROR'' ''[object Object]'')
   \<and> timers (snd (AdquimoSDK_destroy (sdk_queued (always (Responds server_error)))
                    (env_example 4 ''4''))) = [0]
   \<and> map event_name (eventQueue (snd (AdquimoSDK_destroy
                                         (sdk_queued (always (Responds server_error)))
                                         (env_example 4 ''4'')))) = [''signup'', ''login'']
   \<and> isInitialized (snd (AdquimoSDK_destroy (sdk_queued (always (Responds server_error)))
                           (env_example 4 ''4'')))"
proof -
  have a: "eventQueue (sdk_queued (always (Responds server_error))) \<noteq> []"
    by code_simp
  have b: "delivery (sdk_queued (always (Responds server_error)))
             = Inr (ApiFailure (AdquimoError ''HTTP_ERROR'' ''HTTP 500: Internal Server Error''))"
    by code_simp
  have c: "timers (sdk_queued (always (Responds server_error))) = [0]
           \<and> map event_name (eventQueue (sdk_queued (always (Responds server_error))))
               = [''signup'', ''login'']
           \<and> isInitialized (sdk_queued (always (Responds server_error)))"
    by code_simp
  from failed_final_flush_aborts_destroy[OF a b, of "env_example 4 ''4''"] c
  show ?thesis by simp
qed

theorem batch_size_triggers_one_flush_witness:
  "sent (track_all (sdk_ready (fail_first 0)) (butlast calls_example)) = []
   \<and> map event_name (eventQueue (track_all (sdk_ready (fail_first 0)) (butlast calls_example)))
       = [''signup'', ''login'']
   \<and> map (map event_name \<circ> batch_events) (sent (track_all (sdk_ready (fail_first 0)) calls_example))
       = [[''signup'', ''login'', ''purchase'']]
   \<and> map (map event_properties \<circ> batch_events)
         (sent (track_all (sdk_ready (fail_first 0)) calls_example))
       = [[[(''plan'', Str ''pro''), (''seats'', Num 5)], [], [(''sku'', Str ''A-1'')]]]
   \<and> map (map event_value \<circ> batch_events)
         (sent (track_all (sdk_ready (fail_first 0)) calls_example))
       = [[None, None, Some 42]]
   \<and> eventQueue (track_all (sdk_ready (fail_first 0)) calls_example) = []
   \<and> map event_name (eventQueue (track_all (sdk_ready (fail_first 0))
                                     (calls_example @ [call_example])))
       = [''logout'']
   \<and> map event_properties (eventQueue (track_all (sdk_ready (fail_first 0))
                                           (calls_example @ [call_example])))
       = [[(''reason'', Str ''idle'')]]
   \<and> length (sent (track_all (sdk_ready (fail_first 0))
                      (calls_example @ [call_example]))) = 1"
proof -
  have a: "isInitialized (sdk_ready (fail_first 0))"
    and b: "eventQueue (sdk_ready (fail_first 0)) = []"
    and c: "calls_example \<noteq> []"
    and d: "batchSize (sdk_ready (fail_first 0)) = int (length calls_example)"
    and e: "delivery (sdk_ready (fail_first 0)) = Inr (ApiSuccess (JObj [(''status'', JStr ''success'')]))"
    and f: "sent (sdk_ready (fail_first 0)) = []" "1 < length calls_example"
    and g: "map event_name (map (tracked_event (sdk_ready (fail_first 0))) (butlast calls_example))
              = [''signup'', ''login'']"
       "map event_name (map (tracked_event (sdk_ready (fail_first 0))) calls_example)
              = [''signup'', ''login'', ''purchase'']"
       "map event_properties (map (tracked_event (sdk_ready (fail_first 0))) calls_example)
              = [[(''plan'', Str ''pro''), (''seats'', Num 5)], [], [(''sku'', Str ''A-1'')]]"
       "map event_value (map (tracked_event (sdk_ready (fail_first 0))) calls_example)
              = [None, None, Some 42]"
       "event_name (tracked_event (sdk_ready (fail_first 0)) call_example) = ''logout''"
       "event_properties (tracked_event (sdk_ready (fail_first 0)) call_example)
              = [(''reason'', Str ''idle'')]"
    by code_simp+
  from batch_size_triggers_one_flush[OF a b c d,
         of "JObj [(''status'', JStr ''success'')]" call_example] e f g
  show ?thesis by simp
qed

section \<open>The Event Factory\<close>

text \<open>
  \<^verbatim>\<open>createEvent\<close> returns a record for every input, with the name and the properties
  it was given: no input makes it throw.
\<close>

lemma createEvent_never_fails:
  "\<exists>ev. createEvent m e options = Inr ev \<and> event_name ev = opt_name options
        \<and> event_properties ev = (case opt_properties options of None \<Rightarrow> [] | Some ps \<Rightarrow> ps)"
  by (simp add: createEvent_def)

text \<open>
  C1, at an event whose name contains a space and an exclamation mark and whose one
  property has a space in its key and an object as its value. \<^verbatim>\<open>EventValidator.validate\<close>
  reports the three errors, but \<^verbatim>\<open>createEvent\<close> returns the record, where the claim has
  it raise \<^verbatim>\<open>ValidationError\<close>, and \<^verbatim>\<open>track\<close> queues it.
\<close>

theorem invalid_event_created:
  "createEvent managers_example (env_example 0 ''1'') invalid_options = Inr invalid_event
   \<and> validate invalid_event =
       [''Event name must be alphanumeric with underscores and hyphens'',
        ''Property key must be alphanumeric with underscores and hyphens'',
        ''Property value must be a string, number, boolean, or null'']
   \<and> fst (AdquimoSDK_track (sdk_ready (fail_first 0)) (env_example 1 ''1'') ''bad name!''
            (Some invalid_properties) None None None None) = None
   \<and> map event_name (eventQueue (snd (AdquimoSDK_track (sdk_ready (fail_first 0))
            (env_example 1 ''1'') ''bad name!'' (Some invalid_properties) None None None None)))
       = [''bad name!'']"
  by code_simp

section \<open>The coordinator: readiness\<close>

text \<open>
  C5, amended. Whenever the coordinator is not initialized, each of \<^verbatim>\<open>track\<close>,
  \<^verbatim>\<open>trackPageView\<close>, \<^verbatim>\<open>trackClick\<close>, \<^verbatim>\<open>identify\<close>, \<^verbatim>\<open>alias\<close> and \<^verbatim>\<open>reset\<close> throws
  \<^verbatim>\<open>SDK_NOT_INITIALIZED\<close> and changes nothing. \<^verbatim>\<open>flush\<close> makes no such check: with an
  empty queue it returns without error, in every state. A \<^verbatim>\<open>destroy\<close> that completes
  leaves the coordinator not initialized, with the queue and the callbacks cleared,
  so that the six operations throw again; there is no further, terminal state: an
  \<^verbatim>\<open>initialize\<close> that completes, on a destroyed coordinator as on a new one, leaves it
  initialized.
\<close>

theorem guarded_operations:
  "(\<not> isInitialized s \<longrightarrow>
      AdquimoSDK_track s e name properties category action label val =
        (Some (AdquimoError ''SDK_NOT_INITIALIZED''
                 ''SDK must be initialized before tracking events''), s)
      \<and> AdquimoSDK_trackPageView s e url title referrer properties =
        (Some (AdquimoError ''SDK_NOT_INITIALIZED''
                 ''SDK must be initialized before tracking page views''), s)
      \<and> AdquimoSDK_trackClick s e element selector txt properties =
        (Some (AdquimoError ''SDK_NOT_INITIALIZED''
                 ''SDK must be initialized before tracking clicks''), s)
      \<and> AdquimoSDK_identify s e userId properties =
        (Some (AdquimoError ''SDK_NOT_INITIALIZED''
                 ''SDK must be initialized before identifying users''), s)
      \<and> AdquimoSDK_alias s e anonymousId userId =
        (Some (AdquimoError ''SDK_NOT_INITIALIZED''
                 ''SDK must be initialized before aliasing users''), s)
      \<and> AdquimoSDK_reset s e =
        (Some (AdquimoError ''SDK_NOT_INITIALIZED''
                 ''SDK must be initialized before resetting''), s))
   \<and> (eventQueue s = [] \<longrightarrow> AdquimoSDK_flush s e = (None, s))
   \<and> (fst (AdquimoSDK_destroy s e) = None \<longrightarrow>
         \<not> isInitialized (snd (AdquimoSDK_destroy s e))
         \<and> eventQueue (snd (AdquimoSDK_destroy s e)) = []
         \<and> callbacks (snd (AdquimoSDK_destroy s e))
             = \<lparr>onEvent = None, onError = None, onSuccess = None\<rparr>)
   \<and> (fst (AdquimoSDK_initialize s e) = None \<longrightarrow>
         isInitialized (snd (AdquimoSDK_initialize s e)))"
proof (intro conjI impI)
  assume n: "\<not> isInitialized s"
  show "AdquimoSDK_track s e name properties category action label val =
        (Some (AdquimoError ''SDK_NOT_INITIALIZED''
                 ''SDK must be initialized before tracking events''), s)"
    using n by (simp add: AdquimoSDK_track_def not_initialized_def createError_def)
  show "AdquimoSDK_trackPageView s e url title referrer properties =
        (Some (AdquimoError ''SDK_NOT_INITIALIZED''
                 ''SDK must be initialized before tracking page views''), s)"
    using n by (simp add: AdquimoSDK_trackPageView_def not_initialized_def createError_def)
  show "AdquimoSDK_trackClick s e element selector txt properties =
        (Some (AdquimoError ''SDK_NOT_INITIALIZED''
                 ''SDK must be initialized before tracking clicks''), s)"
    using n by (simp add: AdquimoSDK_trackClick_def not_initialized_def createError_def)
  show "AdquimoSDK_identify s e userId properties =
        (Some (AdquimoError ''SDK_NOT_INITIALIZED''
                 ''SDK must be initialized before identifying users''), s)"
    using n by (simp add: AdquimoSDK_identify_def not_initialized_def createError_def)
  show "AdquimoSDK_alias s e anonymousId userId =
        (Some (AdquimoError ''SDK_NOT_INITIALIZED''
                 ''SDK must be initialized before aliasing users''), s)"
    using n by (simp add: AdquimoSDK_alias_def not_initialized_def createError_def)
  show "AdquimoSDK_reset s e =
        (Some (AdquimoError ''SDK_NOT_INITIALIZED''
                 ''SDK must be initialized before resetting''), s)"
    using n by (simp add: AdquimoSDK_reset_def not_initialized_def createError_def)
next
  assume "eventQueue s = []"
  then show "AdquimoSDK_flush s e = (None, s)"
    by (simp add: AdquimoSDK_flush_def)
next
  assume d: "fst (AdquimoSDK_destroy s e) = None"
  obtain r s' where fl: "AdquimoSDK_flush s e = (r, s')" by (cases "AdquimoSDK_flush s e")
  have r: "r = None"
    using d by (cases r) (simp_all add: AdquimoSDK_destroy_def fl fail_with_def Let_def)
  show "\<not> isInitialized (snd (AdquimoSDK_destroy s e))"
    and "eventQueue (snd (AdquimoSDK_destroy s e)) = []"
    and "callbacks (snd (AdquimoSDK_destroy s e))
             = \<lparr>onEvent = None, onError = None, onSuccess = None\<rparr>"
    by (simp_all add: AdquimoSDK_destroy_def fl r Let_def)
next
  assume i: "fst (AdquimoSDK_initialize s e) = None"
  show "isInitialized (snd (AdquimoSDK_initialize s e))"
    using i
    by (auto simp: AdquimoSDK_initialize_def Let_def fail_with_def notify_success_def
          split: prod.splits option.splits)
qed

text \<open>
  C5, as stated, fails twice. On a coordinator that was never initialized, \<^verbatim>\<open>flush\<close>
  returns without error. And a coordinator that was initialized, reset and destroyed
  is initialized again by \<^verbatim>\<open>initialize\<close>, after which \<^verbatim>\<open>track\<close> queues an event.
\<close>

theorem unguarded_flush_and_reuse_counterexample:
  "\<not> isInitialized (sdk_fresh (fail_first 0))
   \<and> AdquimoSDK_flush (sdk_fresh (fail_first 0)) (env_example 1 ''1'')
       = (None, sdk_fresh (fail_first 0))
   \<and> \<not> isInitialized sdk_destroyed
   \<and> fst (AdquimoSDK_initialize sdk_destroyed (env_example 20 ''20'')) = None
   \<and> fst (AdquimoSDK_track sdk_again (env_example 30 ''30'') ''signup''
            None None None None None) = None
   \<and> map event_name (eventQueue (snd (AdquimoSDK_track sdk_again (env_example 30 ''30'')
                                         ''signup'' None None None None None))) = [''signup'']"
proof -
  have a: "\<not> isInitialized (sdk_fresh (fail_first 0))"
    by (simp add: sdk_fresh_def AdquimoSDK_new_def)
  have b: "AdquimoSDK_flush (sdk_fresh (fail_first 0)) (env_example 1 ''1'')
       = (None, sdk_fresh (fail_first 0))"
    by (simp add: AdquimoSDK_flush_def sdk_fresh_def AdquimoSDK_new_def)
  have c: "\<not> isInitialized sdk_destroyed
   \<and> fst (AdquimoSDK_initialize sdk_destroyed (env_example 20 ''20'')) = None
   \<and> fst (AdquimoSDK_track sdk_again (env_example 30 ''30'') ''signup''
            None None None None None) = None
   \<and> map event_name (eventQueue (snd (AdquimoSDK_track sdk_again (env_example 30 ''30'')
                                         ''signup'' None None None None None))) = [''signup'']"
    by code_simp
  from a b c show ?thesis by blast
qed

theorem guarded_operations_witness:
  "AdquimoSDK_track (sdk_fresh (fail_first 0)) (env_example 1 ''1'') ''signup''
       None None None None None =
     (Some (AdquimoError ''SDK_NOT_INITIALIZED''
              ''SDK must be initialized before tracking events''), sdk_fresh (fail_first 0))
   \<and> AdquimoSDK_reset sdk_destroyed (env_example 11 ''11'') =
     (Some (AdquimoError ''SDK_NOT_INITIALIZED''
              ''SDK must be initialized before resetting''), sdk_destroyed)
   \<and> AdquimoSDK_flush (sdk_fresh (fail_first 0)) (env_example 1 ''1'')
       = (None, sdk_fresh (fail_first 0))
   \<and> \<not> isInitialized sdk_destroyed
   \<and> isInitialized sdk_again"
proof -
  have a: "\<not> isInitialized (sdk_fresh (fail_first 0))"
    and b: "eventQueue (sdk_fresh (fail_first 0)) = []"
    by (simp_all add: sdk_fresh_def AdquimoSDK_new_def)
  have c: "fst (AdquimoSDK_destroy
                  (snd (AdquimoSDK_reset (sdk_ready (fail_first 0)) (env_example 5 ''5'')))
                  (env_example 10 ''10'')) = None"
    and d: "fst (AdquimoSDK_initialize sdk_destroyed (env_example 20 ''20'')) = None"
    by code_simp+
  have w1: "AdquimoSDK_track (sdk_fresh (fail_first 0)) (env_example 1 ''1'') ''signup''
                None None None None None =
              (Some (AdquimoError ''SDK_NOT_INITIALIZED''
                       ''SDK must be initialized before tracking events''), sdk_fresh (fail_first 0))"
    and w3: "AdquimoSDK_flush (sdk_fresh (fail_first 0)) (env_example 1 ''1'')
               = (None, sdk_fresh (fail_first 0))"
    using guarded_operations[where s = "sdk_fresh (fail_first 0)" and e = "env_example 1 ''1''"
               and name = "''signup''" and properties = None and category = None
               and action = None and label = None and val = None] a b
    by simp_all
  have nd: "\<not> isInitialized sdk_destroyed"
    using guarded_operations[where
               s = "snd (AdquimoSDK_reset (sdk_ready (fail_first 0)) (env_example 5 ''5''))"
               and e = "env_example 10 ''10''"] c
    unfolding sdk_destroyed_def by simp
  have w2: "AdquimoSDK_reset sdk_destroyed (env_example 11 ''11'') =
              (Some (AdquimoError ''SDK_NOT_INITIALIZED''
                       ''SDK must be initialized before resetting''), sdk_destroyed)"
    using guarded_operations[where s = sdk_destroyed and e = "env_example 11 ''11''"] nd
    by simp
  have w4: "isInitialized sdk_again"
    using guarded_operations[where s = sdk_destroyed and e = "env_example 20 ''20''"] d
    unfolding sdk_again_def by simp
  from w1 w2 w3 nd w4 show ?thesis by simp
qed

end
